theory Spec2Isabelle
  imports Complex_Main
begin

section \<open>Numbers and common helpers\<close>

text \<open>
  The program is TypeScript; every quantity is a JavaScript number. The embedding uses the
  reals for them: \<open>Math.sqrt\<close> is \<open>sqrt\<close>, \<open>Math.PI\<close> is \<open>pi\<close>, \<open>Math.pow(x, 2)\<close> is
  \<open>x\<^sup>2\<close>, \<open>Math.ceil\<close>, \<open>Math.floor\<close> and \<open>Math.round\<close> are \<open>ceiling\<close>, \<open>floor\<close> and
  \<open>\<lfloor>x + 1/2\<rfloor>\<close>. Rounding of doubles, \<open>Infinity\<close> and \<open>NaN\<close> are outside this model, so a
  statement that depends on the value of a quotient carries the hypothesis that its divisor
  is not zero (in HOL \<open>x / 0 = 0\<close>, in the program it is \<open>\<plusminus>Infinity\<close> or \<open>NaN\<close>).

  Counts of bars and layers are integers in the program (results of \<open>Math.ceil\<close> and
  \<open>Math.floor\<close>); they are \<open>int\<close> here. Array indices are \<open>nat\<close>.

  \<open>x.toFixed(f)\<close> prints \<open>x\<close> rounded to \<open>f\<close> decimals (half away from zero); \<open>toFixed\<close>
  below is the number that the printed numeral denotes.
\<close>

definition toFixed :: "nat \<Rightarrow> real \<Rightarrow> real" where
  "toFixed f x = sgn x * real_of_int \<lfloor>\<bar>x\<bar> * 10 ^ f + 1 / 2\<rfloor> / 10 ^ f"

text \<open>\<open>Array.prototype.findIndex\<close>: the first index whose element satisfies the predicate;
  \<open>None\<close> stands for the program's \<open>-1\<close>.\<close>

fun findIndex :: "('a \<Rightarrow> bool) \<Rightarrow> 'a list \<Rightarrow> nat option" where
  "findIndex P [] = None"
| "findIndex P (x # xs) = (if P x then Some 0 else map_option Suc (findIndex P xs))"


section \<open>Data model (types.ts)\<close>

text \<open>
  The \<open>id\<close> strings of supports and loads, the deprecated \<open>magnitude\<close> of a distributed load
  and \<open>steelType\<close> are not read by any computation (only by the user interface and the
  transcript) and are left out of the records.
\<close>

datatype SupportType = roller | pin | fixed

record Support =
  position :: real
  stype :: SupportType

record PointLoad =
  position :: real
  magnitude :: real

record DistributedLoad =
  l_start :: real
  l_end :: real
  startMagnitude :: real
  endMagnitude :: real

record BeamInput =
  span :: real
  supports :: "Support list"
  pointLoads :: "PointLoad list"
  distributedLoads :: "DistributedLoad list"
  width :: real
  height :: real
  fck :: real
  fyk :: real
  concreteCover :: real
  longitudinalBarDiameter :: real
  topBarDiameter :: real
  stirrupDiameter :: real
  stirrupSpacing :: real
  stirrupHookAngle :: nat
  layers :: int


section \<open>The beam solver (solveBeam)\<close>

subsection \<open>Matrix helpers and Gaussian elimination\<close>

definition createMatrix :: "nat \<Rightarrow> nat \<Rightarrow> real list list" where
  "createMatrix rows cols = replicate rows (replicate cols 0)"

definition createVector :: "nat \<Rightarrow> real list" where
  "createVector sz = replicate sz 0"

text \<open>\<open>[a[i], a[j]] = [a[j], a[i]]\<close>\<close>

definition swapAt :: "'a list \<Rightarrow> nat \<Rightarrow> nat \<Rightarrow> 'a list" where
  "swapAt xs i j = (xs[i := xs ! j])[j := xs ! i]"

text \<open>The body of the loop over \<open>k\<close> in the forward elimination: row \<open>k\<close> minus \<open>factor\<close>
  times the pivot row \<open>i\<close>, on the columns \<open>i..n-1\<close>, and the same on the right-hand side.\<close>

definition eliminateRow ::
  "nat \<Rightarrow> nat \<Rightarrow> real list list \<times> real list \<Rightarrow> nat \<Rightarrow> real list list \<times> real list" where
  "eliminateRow n i Mx k =
     (let M = fst Mx; x = snd Mx;
          factor = M ! k ! i / M ! i ! i;
          x' = x[k := x ! k - factor * x ! i];
          M' = foldl (\<lambda>M j. M[k := (M ! k)[j := M ! k ! j - factor * M ! i ! j]]) M [i..<n]
      in (M', x'))"

text \<open>One iteration of the outer loop: partial pivoting, the swap, the skip of a pivot
  below \<open>1e-10\<close>, and the elimination below the pivot.\<close>

definition eliminateColumn ::
  "nat \<Rightarrow> real list list \<times> real list \<Rightarrow> nat \<Rightarrow> real list list \<times> real list" where
  "eliminateColumn n Mx i =
     (let M = fst Mx; x = snd Mx;
          maxRow = foldl (\<lambda>maxRow k. if \<bar>M ! k ! i\<bar> > \<bar>M ! maxRow ! i\<bar> then k else maxRow)
                     i [i + 1..<n];
          M1 = swapAt M i maxRow;
          x1 = swapAt x i maxRow
      in if \<bar>M1 ! i ! i\<bar> < 1 / 10 ^ 10 then (M1, x1)
         else foldl (eliminateRow n i) (M1, x1) [i + 1..<n])"

text \<open>One iteration of the back substitution, for \<open>i\<close> from \<open>n - 1\<close> down to \<open>0\<close>.\<close>

definition backSubstitute ::
  "nat \<Rightarrow> real list list \<Rightarrow> real list \<Rightarrow> real list \<Rightarrow> nat \<Rightarrow> real list" where
  "backSubstitute n M x res i =
     (let sum = foldl (\<lambda>sum j. sum + M ! i ! j * res ! j) 0 [i + 1..<n]
      in if \<bar>M ! i ! i\<bar> > 1 / 10 ^ 10 then res[i := (x ! i - sum) / M ! i ! i] else res)"

definition solveLinear :: "real list list \<Rightarrow> real list \<Rightarrow> real list" where
  "solveLinear A b =
     (let n = length A;
          Mx = foldl (eliminateColumn n) (A, b) [0..<n]
      in foldl (backSubstitute n (fst Mx) (snd Mx)) (createVector n) (rev [0..<n]))"


subsection \<open>Steps 1 to 3: section properties, nodes, stiffness matrix\<close>

definition EI :: "BeamInput \<Rightarrow> real" where
  "EI inp =
     (let Eci = 5600 * sqrt (fck inp);
          E = 0.85 * Eci * 1000;
          b = width inp / 100;
          h = height inp / 100;
          I = (b * h ^ 3) / 12
      in E * I)"

text \<open>\<open>rawNodes\<close> is a \<open>Set\<close> (insertion order, no duplicates) holding \<open>0\<close>, the span and the
  support positions; \<open>nodes\<close> is that set sorted ascending.\<close>

definition nodes :: "BeamInput \<Rightarrow> real list" where
  "nodes inp = sort (remdups (0 # span inp # map Support.position (supports inp)))"

text \<open>\<open>K[r][c] += v\<close>\<close>

definition addK :: "real list list \<Rightarrow> nat \<Rightarrow> nat \<Rightarrow> real \<Rightarrow> real list list" where
  "addK K r c v = K[r := (K ! r)[c := K ! r ! c + v]]"

definition stiffnessElement :: "real \<Rightarrow> real list \<Rightarrow> real list list \<Rightarrow> nat \<Rightarrow> real list list" where
  "stiffnessElement ei ns K i =
     (let x1 = ns ! i; x2 = ns ! (i + 1); L = x2 - x1
      in if L < 1 / 10 ^ 5 then K
         else
           (let k = ei / (L * L * L);
                k11 = 12 * k;
                k12 = 6 * L * k;
                k22 = 4 * L * L * k;
                k22_far = 2 * L * L * k;
                idx = [i * 2, i * 2 + 1, (i + 1) * 2, (i + 1) * 2 + 1];
                Ke = [[k11, k12, - k11, k12],
                      [k12, k22, - k12, k22_far],
                      [- k11, - k12, k11, - k12],
                      [k12, k22_far, - k12, k22]]
            in foldl (\<lambda>K r. foldl (\<lambda>K c. addK K (idx ! r) (idx ! c) (Ke ! r ! c)) K [0..<4])
                 K [0..<4]))"

definition assembleStiffness :: "BeamInput \<Rightarrow> real list list" where
  "assembleStiffness inp =
     (let ns = nodes inp; nNodes = length ns; nDof = nNodes * 2
      in foldl (stiffnessElement (EI inp) ns) (createMatrix nDof nDof) [0..<nNodes - 1])"


subsection \<open>Step 4: the load vector\<close>

text \<open>The four updates \<open>F[idx1] -= R1; F[idx1+1] -= M1; F[idx2] -= R2; F[idx2+1] -= M2\<close>
  of element \<open>i\<close>.\<close>

definition subtractFEA :: "real list \<Rightarrow> nat \<Rightarrow> real \<Rightarrow> real \<Rightarrow> real \<Rightarrow> real \<Rightarrow> real list" where
  "subtractFEA F i R1 M1 R2 M2 =
     (let idx1 = i * 2; idx2 = (i + 1) * 2;
          F1 = F[idx1 := F ! idx1 - R1];
          F2 = F1[idx1 + 1 := F1 ! (idx1 + 1) - M1];
          F3 = F2[idx2 := F2 ! idx2 - R2]
      in F3[idx2 + 1 := F3 ! (idx2 + 1) - M2])"

text \<open>Step 4.1, one distributed load: the loop over the elements, and in each element that
  the load overlaps the five equivalent point loads.\<close>

definition assembleDistributed :: "real list \<Rightarrow> real list \<Rightarrow> DistributedLoad \<Rightarrow> real list" where
  "assembleDistributed ns F d =
     foldl (\<lambda>F i.
        let x1 = ns ! i; x2 = ns ! (i + 1); L = x2 - x1;
            start = max x1 (l_start d);
            endx = min x2 (l_end d)
        in if endx > start then
             (let totalLen = l_end d - l_start d;
                  slope = (endMagnitude d - startMagnitude d) / (if totalLen = 0 then 1 else totalLen);
                  q1 = startMagnitude d + slope * (start - l_start d);
                  q2 = startMagnitude d + slope * (endx - l_start d);
                  nSegs = 5;
                  dx = (endx - start) / nSegs
              in foldl (\<lambda>F k.
                   let px = start + dx * real k + dx / 2;
                       qx = q1 + (q2 - q1) * (real k + 0.5) / nSegs;
                       P = qx * dx;
                       a = px - x1;
                       b = x2 - px;
                       R1 = (P * b * b * (3 * a + b)) / (L * L * L);
                       R2 = (P * a * a * (a + 3 * b)) / (L * L * L);
                       M1 = (P * a * b * b) / (L * L);
                       M2 = - (P * a * a * b) / (L * L)
                   in subtractFEA F i R1 M1 R2 M2) F [0..<5])
           else F) F [0..<length ns - 1]"

text \<open>Step 4.2, one point load: the loop over the elements given as the list of the indices
  still to visit. \<open>continue\<close> goes on with the next element, \<open>break\<close> returns.\<close>

fun assemblePoint :: "real list \<Rightarrow> PointLoad \<Rightarrow> nat list \<Rightarrow> real list \<Rightarrow> real list" where
  "assemblePoint ns p [] F = F"
| "assemblePoint ns p (i # rest) F =
     (let x1 = ns ! i; x2 = ns ! (i + 1)
      in if PointLoad.position p \<ge> x1 \<and> PointLoad.position p \<le> x2 then
           (let L = x2 - x1;
                a = PointLoad.position p - x1;
                b = x2 - PointLoad.position p
            in if L < 1 / 10 ^ 5 then assemblePoint ns p rest F
               else
                 (let P = magnitude p;
                      R1 = (P * b * b * (3 * a + b)) / (L * L * L);
                      R2 = (P * a * a * (a + 3 * b)) / (L * L * L);
                      M1 = (P * a * b * b) / (L * L);
                      M2 = - (P * a * a * b) / (L * L)
                  in subtractFEA F i R1 M1 R2 M2))
         else assemblePoint ns p rest F)"

definition loadVector :: "BeamInput \<Rightarrow> real list" where
  "loadVector inp =
     (let ns = nodes inp; nNodes = length ns; nDof = nNodes * 2;
          F0 = createVector nDof;
          F1 = foldl (assembleDistributed ns) F0 (distributedLoads inp)
      in foldl (\<lambda>F p. assemblePoint ns p [0..<nNodes - 1] F) F1 (pointLoads inp))"


subsection \<open>Step 5: boundary conditions by penalty\<close>

definition applySupport :: "real list \<Rightarrow> real list list \<Rightarrow> Support \<Rightarrow> real list list" where
  "applySupport ns K s =
     (let penalty = 10 ^ 20
      in case findIndex (\<lambda>n. \<bar>n - Support.position s\<bar> < 0.001) ns of
           None \<Rightarrow> K
         | Some idx \<Rightarrow>
             (let vIndex = idx * 2; tIndex = idx * 2 + 1;
                  K1 = addK K vIndex vIndex penalty
              in if stype s = fixed then addK K1 tIndex tIndex penalty else K1))"

definition restrainedStiffness :: "BeamInput \<Rightarrow> real list list" where
  "restrainedStiffness inp = foldl (applySupport (nodes inp)) (assembleStiffness inp) (supports inp)"

text \<open>Step 6: the nodal displacements.\<close>

definition displacements :: "BeamInput \<Rightarrow> real list" where
  "displacements inp = solveLinear (restrainedStiffness inp) (loadVector inp)"


subsection \<open>Step 7: member end forces\<close>

record MemberForce =
  nodeLeftIdx :: nat
  nodeRightIdx :: nat
  Fy_L :: real
  M_L :: real
  Fy_R :: real
  M_R :: real

text \<open>The fixed-end actions of the element \<open>[x1, x2]\<close> are recomputed in the array \<open>fea\<close>,
  first over the distributed loads, then over the point loads.\<close>

definition feaDistributed :: "real \<Rightarrow> real \<Rightarrow> real list \<Rightarrow> DistributedLoad \<Rightarrow> real list" where
  "feaDistributed x1 x2 fea d =
     (let L = x2 - x1;
          start = max x1 (l_start d);
          endx = min x2 (l_end d)
      in if endx > start then
           (let totalLen = l_end d - l_start d;
                slope = (endMagnitude d - startMagnitude d) / (if totalLen = 0 then 1 else totalLen);
                q1 = startMagnitude d + slope * (start - l_start d);
                q2 = startMagnitude d + slope * (endx - l_start d);
                nSegs = 5;
                dx = (endx - start) / nSegs
            in foldl (\<lambda>fea k.
                 let px = start + dx * real k + dx / 2;
                     qx = q1 + (q2 - q1) * (real k + 0.5) / nSegs;
                     P = qx * dx;
                     a = px - x1;
                     b = x2 - px;
                     fea1 = fea[0 := fea ! 0 + (P * b * b * (3 * a + b)) / (L * L * L)];
                     fea2 = fea1[1 := fea1 ! 1 + (P * a * b * b) / (L * L)];
                     fea3 = fea2[2 := fea2 ! 2 + (P * a * a * (a + 3 * b)) / (L * L * L)]
                 in fea3[3 := fea3 ! 3 - (P * a * a * b) / (L * L)]) fea [0..<5])
         else fea)"

definition feaPoint :: "real \<Rightarrow> real \<Rightarrow> real list \<Rightarrow> PointLoad \<Rightarrow> real list" where
  "feaPoint x1 x2 fea p =
     (let L = x2 - x1
      in if PointLoad.position p \<ge> x1 \<and> PointLoad.position p \<le> x2 then
           (let a = PointLoad.position p - x1;
                b = x2 - PointLoad.position p
            in if \<bar>x2 - x1\<bar> > 1 / 10 ^ 5 \<and> min a b > 1 / 10 ^ 5 then
                 (let P = magnitude p;
                      fea1 = fea[0 := fea ! 0 + (P * b * b * (3 * a + b)) / (L * L * L)];
                      fea2 = fea1[1 := fea1 ! 1 + (P * a * b * b) / (L * L)];
                      fea3 = fea2[2 := fea2 ! 2 + (P * a * a * (a + 3 * b)) / (L * L * L)]
                  in fea3[3 := fea3 ! 3 - (P * a * a * b) / (L * L)])
               else fea)
         else fea)"

definition recomputeFEA :: "BeamInput \<Rightarrow> nat \<Rightarrow> real list" where
  "recomputeFEA inp i =
     (let ns = nodes inp; x1 = ns ! i; x2 = ns ! (i + 1);
          fea = foldl (feaDistributed x1 x2) [0, 0, 0, 0] (distributedLoads inp)
      in foldl (feaPoint x1 x2) fea (pointLoads inp))"

definition memberForce :: "BeamInput \<Rightarrow> real list \<Rightarrow> nat \<Rightarrow> MemberForce" where
  "memberForce inp d i =
     (let ns = nodes inp; x1 = ns ! i; x2 = ns ! (i + 1); L = x2 - x1;
          k = EI inp / (L * L * L);
          u = [d ! (i * 2), d ! (i * 2 + 1), d ! ((i + 1) * 2), d ! ((i + 1) * 2 + 1)];
          f_stiff =
            [(12 * k) * u ! 0 + (6 * L * k) * u ! 1 + (- 12 * k) * u ! 2 + (6 * L * k) * u ! 3,
             (6 * L * k) * u ! 0 + (4 * L * L * k) * u ! 1 + (- 6 * L * k) * u ! 2 + (2 * L * L * k) * u ! 3,
             (- 12 * k) * u ! 0 + (- 6 * L * k) * u ! 1 + (12 * k) * u ! 2 + (- 6 * L * k) * u ! 3,
             (6 * L * k) * u ! 0 + (2 * L * L * k) * u ! 1 + (- 6 * L * k) * u ! 2 + (4 * L * L * k) * u ! 3];
          fea = recomputeFEA inp i
      in \<lparr>nodeLeftIdx = i, nodeRightIdx = i + 1,
          Fy_L = f_stiff ! 0 + fea ! 0,
          M_L = f_stiff ! 1 + fea ! 1,
          Fy_R = f_stiff ! 2 + fea ! 2,
          M_R = f_stiff ! 3 + fea ! 3\<rparr>)"

definition memberForces :: "BeamInput \<Rightarrow> real list \<Rightarrow> MemberForce list" where
  "memberForces inp d = map (memberForce inp d) [0..<length (nodes inp) - 1]"


subsection \<open>Step 8: reactions at the nodes\<close>

record Reaction =
  Ry :: real
  Mz :: real

definition nodeReaction :: "BeamInput \<Rightarrow> MemberForce list \<Rightarrow> nat \<Rightarrow> real \<Rightarrow> Reaction" where
  "nodeReaction inp mf i x =
     (let nNodes = length (nodes inp);
          Ry0 = (if i < nNodes - 1 then Fy_L (mf ! i) else 0);
          Mz0 = (if i < nNodes - 1 then M_L (mf ! i) else 0);
          Ry1 = (if i > 0 then Ry0 + Fy_R (mf ! (i - 1)) else Ry0);
          Mz1 = (if i > 0 then Mz0 + M_R (mf ! (i - 1)) else Mz0);
          Ry2 = foldl (\<lambda>Ry p. if \<bar>PointLoad.position p - x\<bar> < 0.001 then Ry - magnitude p else Ry)
                  Ry1 (pointLoads inp)
      in \<lparr>Ry = Ry2, Mz = Mz1\<rparr>)"

text \<open>\<open>reactionMap\<close> is a \<open>Map\<close> from the position of a node to its reaction.\<close>

definition reactionMap :: "BeamInput \<Rightarrow> MemberForce list \<Rightarrow> (real \<rightharpoonup> Reaction)" where
  "reactionMap inp mf =
     foldl (\<lambda>m ix. m(snd ix \<mapsto> nodeReaction inp mf (fst ix) (snd ix))) Map.empty
       (enumerate 0 (nodes inp))"


subsection \<open>Step 9: the diagrams\<close>

text \<open>
  The program walks the span twice. The first loop only updates its local \<open>V\<close> and \<open>M\<close>,
  which are reset to \<open>0\<close> before the second loop (together with the three still empty
  chart arrays), so it has no effect on the result and is not modelled. What follows is the
  second loop. A chart sample is a pair: the abscissa and the value, both as printed by
  \<open>toFixed\<close>. The locals \<open>cent\<close> and \<open>distCentroidToX\<close> are never read and are left out.
\<close>

record SolverResult =
  chartDataMoment :: "(real \<times> real) list"
  chartDataShear :: "(real \<times> real) list"
  chartDataDeflection :: "(real \<times> real) list"
  maxMomentPos :: real
  maxMomentNeg :: real
  maxShear :: real
  maxDeflection :: real
  R1 :: real
  R2 :: real

record WalkState =
  V :: real
  M :: real
  acc :: SolverResult

text \<open>The deflection at \<open>x\<close>, interpolated from the nodal displacements \<open>d\<close> with the Hermite
  shape functions.\<close>

definition deflectionAt :: "real list \<Rightarrow> real list \<Rightarrow> real \<Rightarrow> real" where
  "deflectionAt ns d x =
     (case findIndex (\<lambda>n. n \<ge> x - 1 / 10 ^ 5) ns of
        None \<Rightarrow> 0
      | Some nodeIdx \<Rightarrow>
          if nodeIdx < length ns then
            (if \<bar>ns ! nodeIdx - x\<bar> < 1 / 10 ^ 4 then d ! (nodeIdx * 2)
             else if nodeIdx > 0 then
               (let n1 = nodeIdx - 1; n2 = nodeIdx;
                    x1 = ns ! n1; x2 = ns ! n2;
                    L = x2 - x1;
                    localX = x - x1;
                    xi = localX / L;
                    v1 = d ! (n1 * 2); t1 = d ! (n1 * 2 + 1);
                    v2 = d ! (n2 * 2); t2 = d ! (n2 * 2 + 1);
                    N1 = 1 - 3 * xi * xi + 2 * xi * xi * xi;
                    N2 = L * (xi - 2 * xi * xi + xi * xi * xi);
                    N3 = 3 * xi * xi - 2 * xi * xi * xi;
                    N4 = L * (- xi * xi + xi * xi * xi)
                in N1 * v1 + N2 * t1 + N3 * v2 + N4 * t2)
             else 0)
          else 0)"

text \<open>The load of the distributed loads between \<open>x_prev\<close> and \<open>x\<close> (\<open>dV_dist\<close>).\<close>

definition dV_dist :: "BeamInput \<Rightarrow> real \<Rightarrow> real \<Rightarrow> real" where
  "dV_dist inp x_prev x =
     foldl (\<lambda>dV d.
        let s = max x_prev (l_start d);
            e = min x (l_end d)
        in if e > s then
             (let len = e - s;
                  slope = (endMagnitude d - startMagnitude d) / (l_end d - l_start d);
                  q_s = startMagnitude d + slope * (s - l_start d);
                  q_e = startMagnitude d + slope * (e - l_start d);
                  force = len * (q_s + q_e) / 2
              in dV + force)
           else dV) 0 (distributedLoads inp)"

text \<open>The part of an iteration under \<open>if (i > 0)\<close>: integration over the step, then the
  jumps of the reactions and of the point loads that lie in \<open>(x_prev, x]\<close>.\<close>

definition walkIntegrate :: "BeamInput \<Rightarrow> (real \<rightharpoonup> Reaction) \<Rightarrow> real \<times> real \<Rightarrow> nat \<Rightarrow> real \<times> real" where
  "walkIntegrate inp rmap VM i =
     (let dx = span inp / 200;
          x = real i * dx;
          x_prev = (real i - 1) * dx;
          segLen = x - x_prev;
          V_prev = fst VM;
          V_after_dist = V_prev - dV_dist inp x_prev x;
          M1 = snd VM + (V_prev + V_after_dist) / 2 * segLen;
          VM2 = foldl (\<lambda>VM s.
                  if Support.position s > x_prev + 1 / 10 ^ 9 \<and> Support.position s \<le> x + 1 / 10 ^ 9 then
                    (case rmap (Support.position s) of
                       Some r \<Rightarrow> (fst VM + Ry r, snd VM - Mz r)
                     | None \<Rightarrow> VM)
                  else VM) (V_after_dist, M1) (supports inp);
          V3 = foldl (\<lambda>V p.
                  if PointLoad.position p > x_prev + 1 / 10 ^ 9 \<and> PointLoad.position p \<le> x + 1 / 10 ^ 9
                  then V - magnitude p else V) (fst VM2) (pointLoads inp)
      in (V3, snd VM2))"

definition walkStep ::
  "BeamInput \<Rightarrow> real list \<Rightarrow> (real \<rightharpoonup> Reaction) \<Rightarrow> WalkState \<Rightarrow> nat \<Rightarrow> WalkState" where
  "walkStep inp d rmap st i =
     (let dx = span inp / 200;
          x = real i * dx;
          VM = (if i > 0 then walkIntegrate inp rmap (V st, M st) i else (V st, M st));
          V' = fst VM; M' = snd VM;
          r = acc st;
          y_def = deflectionAt (nodes inp) d x;
          y_cm = y_def * 100
      in \<lparr>V = V', M = M',
          acc = r\<lparr>chartDataShear := chartDataShear r @ [(toFixed 2 x, toFixed 2 V')],
                  chartDataMoment := chartDataMoment r @ [(toFixed 2 x, toFixed 2 M')],
                  maxMomentPos := (if M' > maxMomentPos r then M' else maxMomentPos r),
                  maxMomentNeg := (if M' < maxMomentNeg r then M' else maxMomentNeg r),
                  maxShear := (if \<bar>V'\<bar> > maxShear r then \<bar>V'\<bar> else maxShear r),
                  chartDataDeflection := chartDataDeflection r @ [(toFixed 2 x, toFixed 3 y_cm)],
                  maxDeflection := (if \<bar>y_cm\<bar> > \<bar>maxDeflection r\<bar> then y_cm else maxDeflection r)\<rparr>\<rparr>)"

definition solveBeam :: "BeamInput \<Rightarrow> SolverResult" where
  "solveBeam inp =
     (let d = displacements inp;
          rmap = reactionMap inp (memberForces inp d);
          VM0 = (case rmap 0 of Some r \<Rightarrow> (0 + Ry r, 0 - Mz r) | None \<Rightarrow> (0, 0));
          st0 = \<lparr>V = fst VM0, M = snd VM0,
                 acc = \<lparr>chartDataMoment = [], chartDataShear = [], chartDataDeflection = [],
                        maxMomentPos = 0, maxMomentNeg = 0, maxShear = 0, maxDeflection = 0,
                        R1 = 0, R2 = 0\<rparr>\<rparr>
      in acc (foldl (walkStep inp d rmap) st0 [0..<201]))"


section \<open>The result record\<close>

text \<open>
  A message of the result is a string built from a template; here it is a constructor per
  template, carrying the numbers that the template prints:
  \<^item> \<open>StructureUnstable\<close>: "Erro: Estrutura instavel (Hipostatica). Adicione pelo menos 2
    apoios ou 1 engaste ...";
  \<^item> \<open>DeflectionExceeded a n l\<close>: "Alerta ELS: Flecha calculada (a cm) excede o limite
    L/n (l cm).";
  \<^item> \<open>SectionInsufficient face\<close>: "Secao insuficiente para Momento Positivo/Negativo
    (Kmd > 0.45).";
  \<^item> \<open>BarsDoNotFit face n\<close>: "Erro: Barras na face inferior/superior nao cabem em n
    camadas.";
  \<^item> \<open>StirrupRatioInsufficient\<close>: "Erro: Taxa de estribos insuficiente. ...";
  \<^item> \<open>ExcessiveSlenderness l\<close>: "Esbeltez excessiva (lambda = l > 140). Aumente a secao.";
  \<^item> \<open>ConcreteCrushing\<close>: "Secao de concreto insuficiente (Esmagamento). ...";
  \<^item> \<open>ReinforcementAboveMaximum a m\<close>: "Armadura necessaria (a cm2) excede o limite maximo
    de 4% da secao (m cm2).";
  \<^item> \<open>StirrupDiameterTooSmall s l m\<close>: "Aviso: Diametro estribo (s) menor que o minimo
    (l/4 = m).";
  \<^item> \<open>StirrupSpacingTooLarge s m\<close>: "Aviso: Espacamento (c/s) excede o maximo (m cm).".

  The transcript \<open>calculationMemory\<close> (lines of text that print quantities computed anyway)
  is written and never read by the computation; it is not part of the model. Of a metric
  the label and the value are kept (labels without their accents), the unit and the
  description are texts and are left out.
\<close>

datatype Face = bottomFace | topFace

datatype Message =
    StructureUnstable
  | DeflectionExceeded real nat real
  | SectionInsufficient Face
  | BarsDoNotFit Face int
  | StirrupRatioInsufficient
  | ExcessiveSlenderness real
  | ConcreteCrushing
  | ReinforcementAboveMaximum real real
  | StirrupDiameterTooSmall real real real
  | StirrupSpacingTooLarge real real

record Metric =
  label :: string
  val :: real

record CrossSectionDetails =
  cs_width :: real
  cs_height :: real
  cs_cover :: real
  cs_stirrupDiameter :: real
  cs_stirrupSpacing :: real
  cs_stirrupHookAngle :: nat
  cs_bottomBarDiameter :: real
  cs_topBarDiameter :: real
  cs_bottomLayers :: "int list"
  cs_topLayers :: "int list"
  cs_leftLayers :: "int list option"
  cs_rightLayers :: "int list option"
  cs_stirrupLegs :: nat

record ReinforcementOption =
  opt_diameter :: real
  opt_count :: int
  opt_area :: real
  opt_layers :: int
  opt_valid :: bool

text \<open>The optional fields of \<open>CalculationResult\<close> are \<open>None\<close> where the program's object
  literal does not have them (or has \<open>undefined\<close>).\<close>

record CalculationResult =
  isValid :: bool
  messages :: "Message list"
  metrics :: "Metric list"
  chartDataMoment :: "(real \<times> real) list option"
  chartDataNormal :: "(real \<times> real) list option"
  chartDataBuckling :: "(real \<times> real) list option"
  chartDataShear :: "(real \<times> real) list option"
  chartDataDeflection :: "(real \<times> real) list option"
  crossSection :: "CrossSectionDetails option"
  alternativeReinforcement :: "ReinforcementOption list option"


section \<open>Beam design (calculateBeam)\<close>

definition GAMMA_C :: real where "GAMMA_C = 1.4"
definition GAMMA_S :: real where "GAMMA_S = 1.15"
definition GAMMA_F :: real where "GAMMA_F = 1.4"

definition BAR_DIAMETERS :: "real list" where
  "BAR_DIAMETERS = [6.3, 8.0, 10.0, 12.5, 16.0, 20.0, 25.0]"

definition getRhoMin :: "real \<Rightarrow> real" where
  "getRhoMin fck' =
     (if fck' \<le> 20 then 0.150
      else if fck' \<le> 25 then 0.150
      else if fck' \<le> 30 then 0.150
      else if fck' \<le> 35 then 0.164
      else if fck' \<le> 40 then 0.179
      else if fck' \<le> 45 then 0.194
      else if fck' \<le> 50 then 0.208
      else 0.208)"

subsection \<open>The stability check\<close>

definition isCantilever :: "BeamInput \<Rightarrow> bool" where
  "isCantilever inp \<longleftrightarrow> length (supports inp) = 1 \<and> stype (supports inp ! 0) = fixed"

definition isStable :: "BeamInput \<Rightarrow> bool" where
  "isStable inp \<longleftrightarrow> length (supports inp) \<ge> 2 \<or> isCantilever inp"

definition unstableResult :: CalculationResult where
  "unstableResult =
     \<lparr>isValid = False,
      messages = [StructureUnstable],
      metrics = [],
      chartDataMoment = Some [],
      chartDataNormal = None,
      chartDataBuckling = None,
      chartDataShear = Some [],
      chartDataDeflection = Some [],
      crossSection = None,
      alternativeReinforcement = Some []\<rparr>"

subsection \<open>Flexural design of one face (calculateReinforcement)\<close>

definition fcd_kN_cm2 :: "BeamInput \<Rightarrow> real" where
  "fcd_kN_cm2 inp = (fck inp / GAMMA_C) / 10"

definition fyd_kN_cm2 :: "BeamInput \<Rightarrow> real" where
  "fyd_kN_cm2 inp = (fyk inp / GAMMA_S) / 10"

definition d_face :: "BeamInput \<Rightarrow> real \<Rightarrow> real" where
  "d_face inp barDia =
     height inp - concreteCover inp - (stirrupDiameter inp / 10) - (barDia / 20)"

definition Kmd :: "BeamInput \<Rightarrow> real \<Rightarrow> real \<Rightarrow> real" where
  "Kmd inp MomentD_kNm barDia =
     (MomentD_kNm * 100) / (width inp * (d_face inp barDia)\<^sup>2 * fcd_kN_cm2 inp)"

text \<open>The first branch of \<open>calculateReinforcement\<close>: the values of \<open>as\<close> and \<open>valid\<close> after
  the test of \<open>Kmd\<close> against \<open>KmdLimit\<close>, and the message pushed there.\<close>

definition flexure :: "BeamInput \<Rightarrow> real \<Rightarrow> real \<Rightarrow> Face \<Rightarrow> real \<times> bool \<times> Message list" where
  "flexure inp MomentD_kNm barDia face =
     (let Md_kNcm = MomentD_kNm * 100;
          KmdLimit = 0.45
      in if Kmd inp MomentD_kNm barDia > KmdLimit then (0, False, [SectionInsufficient face])
         else
           (let beta_x = 1.25 * (1 - sqrt (1 - 2 * Kmd inp MomentD_kNm barDia));
                beta_z = 1 - 0.4 * beta_x;
                As_calc = Md_kNcm / ((beta_z * d_face inp barDia) * fyd_kN_cm2 inp)
            in (As_calc, True, [])))"

definition As_min :: "BeamInput \<Rightarrow> real" where
  "As_min inp = (getRhoMin (fck inp) / 100) * width inp * height inp"

text \<open>
  The \<open>while (remainingBars > 0)\<close> loop that distributes the bars over the layers. The
  state is \<open>layerCounts\<close>, \<open>remainingBars\<close>, \<open>currentLayer\<close>, \<open>valid\<close> and the messages pushed
  so far. \<open>currentLayer\<close> is always the length of \<open>layerCounts\<close>, so the write to
  \<open>layerCounts[currentLayer - 1]\<close> is in range unless \<open>currentLayer\<close> is \<open>0\<close>; then the
  program writes a property \<open>-1\<close> of the array and its elements are unchanged.
\<close>

function placeLayers ::
  "int \<Rightarrow> int \<Rightarrow> Face \<Rightarrow> int list \<Rightarrow> int \<Rightarrow> int \<Rightarrow> bool \<Rightarrow> Message list
     \<Rightarrow> int list \<times> bool \<times> Message list" where
  "placeLayers lay maxBarsPerLayer face layerCounts remainingBars currentLayer valid msgs =
     (if remainingBars > 0 then
        (if currentLayer \<ge> lay then
           placeLayers lay maxBarsPerLayer face
             (if 0 < currentLayer \<and> nat (currentLayer - 1) < length layerCounts
              then layerCounts[nat (currentLayer - 1) :=
                     layerCounts ! nat (currentLayer - 1) + remainingBars]
              else layerCounts)
             0 currentLayer False (msgs @ [BarsDoNotFit face lay])
         else
           (let count = min remainingBars maxBarsPerLayer
            in placeLayers lay maxBarsPerLayer face (layerCounts @ [count])
                 (remainingBars - count) (currentLayer + 1) valid msgs))
      else (layerCounts, valid, msgs))"
  by pat_completeness auto
termination
  by (relation "measure (\<lambda>(lay, maxBarsPerLayer, face, layerCounts, remainingBars, currentLayer, valid, msgs).
         if remainingBars > 0 then nat (lay - currentLayer) + 1 else 0)") auto

declare placeLayers.simps [simp del]

record Reinforcement =
  as_req :: real
  as_provided :: real
  count :: int
  layerCounts :: "int list"
  valid :: bool

text \<open>\<open>calculateReinforcement\<close> pushes its messages on the array \<open>messages\<close> of
  \<open>calculateBeam\<close>; the model returns the messages pushed, in order, beside the result.\<close>

definition calculateReinforcement ::
  "BeamInput \<Rightarrow> real \<Rightarrow> real \<Rightarrow> Face \<Rightarrow> Reinforcement \<times> Message list" where
  "calculateReinforcement inp MomentD_kNm barDia face =
     (let fl = flexure inp MomentD_kNm barDia face;
          as0 = fst fl; valid0 = fst (snd fl); msgs0 = snd (snd fl);
          isConstructive = MomentD_kNm < 0.5;
          as1 = (if isConstructive then 0 else as0);
          as2 = (if as1 < As_min inp then As_min inp else as1);
          barArea = pi * (barDia / 20)\<^sup>2;
          numberOfBars =
            (if isConstructive then
               (if As_min inp > 2 * barArea then
                  (let n = \<lceil>As_min inp / barArea\<rceil> in if n < 2 then 2 else n)
                else 2)
             else (let n = \<lceil>as2 / barArea\<rceil> in if n < 2 then 2 else n));
          as_prov = real_of_int numberOfBars * barArea;
          availableWidth = width inp - (2 * concreteCover inp) - (2 * stirrupDiameter inp / 10);
          minSpace = max 2 (max (barDia / 10) (1.2 * 1.9));
          maxBarsPerLayer = \<lfloor>(availableWidth + minSpace) / ((barDia / 10) + minSpace)\<rfloor>;
          placed = placeLayers (layers inp) maxBarsPerLayer face [] numberOfBars 0 valid0 msgs0
      in (\<lparr>as_req = as2, as_provided = as_prov, count = numberOfBars,
           layerCounts = fst placed, valid = fst (snd placed)\<rparr>,
          snd (snd placed)))"


subsection \<open>The body of calculateBeam after the solver\<close>

text \<open>The alternative for one commercial diameter; \<open>None\<close> where the callback of
  \<open>BAR_DIAMETERS.forEach\<close> pushes nothing.\<close>

definition alternativeFor :: "BeamInput \<Rightarrow> real \<Rightarrow> real \<Rightarrow> ReinforcementOption option" where
  "alternativeFor inp M_critical dia =
     (if dia < 6.3 then None
      else
        (let h = height inp / 100;
             fyd = (fyk inp * 1000) / GAMMA_S;
             availableWidth = width inp - (2 * concreteCover inp) - (2 * stirrupDiameter inp / 10);
             minSpace = max 2 (max (dia / 10) (1.2 * 1.9));
             maxBarsPerLayer = \<lfloor>(availableWidth + minSpace) / ((dia / 10) + minSpace)\<rfloor>;
             d_est = h - 0.05;
             z_est = 0.9 * d_est;
             As_est = M_critical / (z_est * fyd) * 10000;
             rho_min_percent = getRhoMin (fck inp);
             As_min_alt = (rho_min_percent / 100) * width inp * height inp;
             As_target = max As_est As_min_alt;
             areaOne = pi * (dia / 20)\<^sup>2;
             count0 = \<lceil>As_target / areaOne\<rceil>;
             count = (if count0 < 2 then 2 else count0);
             totalArea = real_of_int count * areaOne;
             layersAlt = (if count \<le> maxBarsPerLayer then 1
                          else if count \<le> maxBarsPerLayer * 2 then 2
                          else if count \<le> maxBarsPerLayer * 3 then 3
                          else 1);
             validAlt = (count \<le> maxBarsPerLayer \<or> count \<le> maxBarsPerLayer * 2
                         \<or> count \<le> maxBarsPerLayer * 3)
         in if validAlt \<and> count \<le> 16 then
              Some \<lparr>opt_diameter = dia, opt_count = count, opt_area = totalArea,
                    opt_layers = layersAlt, opt_valid = True\<rparr>
            else None))"

text \<open>The serviceability limit: the allowable deflection in cm.\<close>

definition limitDivisor :: "BeamInput \<Rightarrow> nat" where
  "limitDivisor inp = (if isCantilever inp then 125 else 250)"

definition allowableDeflection :: "BeamInput \<Rightarrow> real" where
  "allowableDeflection inp = (span inp * 100) / real (limitDivisor inp)"

text \<open>The design moments of the two faces and the bar diameter of the top face
  (\<open>topBarDiameter || longitudinalBarDiameter\<close>).\<close>

definition M_d_pos :: "SolverResult \<Rightarrow> real" where
  "M_d_pos sr = max 0 (maxMomentPos sr) * GAMMA_F"

definition M_d_neg :: "SolverResult \<Rightarrow> real" where
  "M_d_neg sr = \<bar>min 0 (maxMomentNeg sr)\<bar> * GAMMA_F"

definition topBarDia :: "BeamInput \<Rightarrow> real" where
  "topBarDia inp =
     (if topBarDiameter inp \<noteq> 0 then topBarDiameter inp else longitudinalBarDiameter inp)"

text \<open>The minimum and the provided ratio of the stirrups.\<close>

definition rho_sw_min :: "BeamInput \<Rightarrow> real" where
  "rho_sw_min inp = (let fctm = 0.3 * (fck inp powr (2 / 3)); fywk = 500 in 0.2 * (fctm / fywk))"

definition rho_sw_provided :: "BeamInput \<Rightarrow> real" where
  "rho_sw_provided inp =
     (let Asw_leg = pi * (stirrupDiameter inp / 20)\<^sup>2;
          Asw_total = 2 * Asw_leg;
          s_cm = stirrupSpacing inp;
          bw_cm = width inp
      in Asw_total / (s_cm * bw_cm))"

text \<open>\<open>beamDesign inp sr\<close> is the body of \<open>calculateBeam\<close> from the call of the solver on,
  \<open>sr\<close> being what \<open>solveBeam(input)\<close> returned.\<close>

definition beamDesign :: "BeamInput \<Rightarrow> SolverResult \<Rightarrow> CalculationResult" where
  "beamDesign inp sr =
     (let V_d = maxShear sr * GAMMA_F;
          absMaxDeflection = \<bar>maxDeflection sr\<bar>;
          messages0 =
            (if absMaxDeflection > allowableDeflection inp
             then [DeflectionExceeded (toFixed 2 absMaxDeflection) (limitDivisor inp)
                     (toFixed 2 (allowableDeflection inp))]
             else []);
          bottomResult = calculateReinforcement inp (M_d_pos sr) (longitudinalBarDiameter inp) bottomFace;
          messages1 = messages0 @ snd bottomResult;
          topResult = calculateReinforcement inp (M_d_neg sr) (topBarDia inp) topFace;
          messages2 = messages1 @ snd topResult;
          isValid1 = (if \<not> valid (fst bottomResult) \<or> \<not> valid (fst topResult) then False else True);
          isValid2 = (if rho_sw_provided inp < rho_sw_min inp then False else isValid1);
          messages3 = (if rho_sw_provided inp < rho_sw_min inp
                       then messages2 @ [StirrupRatioInsufficient] else messages2);
          M_critical = max (M_d_pos sr) (M_d_neg sr);
          alternatives = List.map_filter (alternativeFor inp M_critical) BAR_DIAMETERS
      in \<lparr>isValid = isValid2,
          messages = messages3,
          metrics =
            [\<lparr>label = ''Momento Pos. (Md+)'', val = toFixed 2 (M_d_pos sr)\<rparr>,
             \<lparr>label = ''Momento Neg. (Md-)'', val = toFixed 2 (M_d_neg sr)\<rparr>,
             \<lparr>label = ''Cortante (Vd)'', val = toFixed 2 V_d\<rparr>,
             \<lparr>label = ''Flecha (ELS)'', val = toFixed 2 \<bar>maxDeflection sr\<bar>\<rparr>,
             \<lparr>label = ''As Inf. Efetivo'', val = toFixed 2 (as_provided (fst bottomResult))\<rparr>,
             \<lparr>label = ''As Sup. Efetivo'', val = toFixed 2 (as_provided (fst topResult))\<rparr>],
          chartDataMoment = Some (SolverResult.chartDataMoment sr),
          chartDataNormal = None,
          chartDataBuckling = None,
          chartDataShear = Some (SolverResult.chartDataShear sr),
          chartDataDeflection = Some (SolverResult.chartDataDeflection sr),
          crossSection = Some
            \<lparr>cs_width = width inp,
             cs_height = height inp,
             cs_cover = concreteCover inp,
             cs_stirrupDiameter = stirrupDiameter inp,
             cs_stirrupSpacing = stirrupSpacing inp,
             cs_stirrupHookAngle = stirrupHookAngle inp,
             cs_bottomBarDiameter = longitudinalBarDiameter inp,
             cs_topBarDiameter = topBarDia inp,
             cs_bottomLayers = layerCounts (fst bottomResult),
             cs_topLayers = layerCounts (fst topResult),
             cs_leftLayers = None,
             cs_rightLayers = None,
             cs_stirrupLegs = 2\<rparr>,
          alternativeReinforcement = Some alternatives\<rparr>)"

definition calculateBeam :: "BeamInput \<Rightarrow> CalculationResult" where
  "calculateBeam inp =
     (if \<not> isStable inp then unstableResult else beamDesign inp (solveBeam inp))"


section \<open>Column design (calculateColumn)\<close>

datatype SupportCondition = PINNED_PINNED | FIXED_FREE | FIXED_PINNED | FIXED_FIXED

record ColumnInput =
  col_height :: real
  axialLoad :: real
  widthX :: real
  widthY :: real
  col_fck :: real
  col_fyk :: real
  supportCondition :: SupportCondition
  col_longitudinalBarDiameter :: real
  col_stirrupDiameter :: real
  col_stirrupSpacing :: real

subsection \<open>Loads, section and slenderness\<close>

definition Nd :: "ColumnInput \<Rightarrow> real" where
  "Nd inp = axialLoad inp * GAMMA_F"

definition col_fcd :: "ColumnInput \<Rightarrow> real" where
  "col_fcd inp = (col_fck inp * 1000) / GAMMA_C"

definition col_fyd :: "ColumnInput \<Rightarrow> real" where
  "col_fyd inp = (col_fyk inp * 1000) / GAMMA_S"

definition hx :: "ColumnInput \<Rightarrow> real" where
  "hx inp = widthX inp / 100"

definition hy :: "ColumnInput \<Rightarrow> real" where
  "hy inp = widthY inp / 100"

definition Ac :: "ColumnInput \<Rightarrow> real" where
  "Ac inp = hx inp * hy inp"

text \<open>The effective-length factor \<open>k\<close> chosen by the \<open>switch\<close>.\<close>

definition k_factor :: "SupportCondition \<Rightarrow> real" where
  "k_factor c =
     (case c of PINNED_PINNED \<Rightarrow> 1.0 | FIXED_FREE \<Rightarrow> 2.0 | FIXED_PINNED \<Rightarrow> 0.7 | FIXED_FIXED \<Rightarrow> 0.5)"

definition le :: "ColumnInput \<Rightarrow> real" where
  "le inp = k_factor (supportCondition inp) * col_height inp"

definition lambdaX :: "ColumnInput \<Rightarrow> real" where
  "lambdaX inp = (le inp * 3.46) / hx inp"

definition lambdaY :: "ColumnInput \<Rightarrow> real" where
  "lambdaY inp = (le inp * 3.46) / hy inp"

definition maxLambda :: "ColumnInput \<Rightarrow> real" where
  "maxLambda inp = max (lambdaX inp) (lambdaY inp)"

text \<open>The result returned at once when \<open>maxLambda > 140\<close>.\<close>

definition slenderResult :: "ColumnInput \<Rightarrow> CalculationResult" where
  "slenderResult inp =
     \<lparr>isValid = False,
      messages = [ExcessiveSlenderness (toFixed 1 (maxLambda inp))],
      metrics = [],
      chartDataMoment = None,
      chartDataNormal = None,
      chartDataBuckling = None,
      chartDataShear = None,
      chartDataDeflection = None,
      crossSection = None,
      alternativeReinforcement = Some []\<rparr>"

subsection \<open>First-order and second-order moments\<close>

definition e_min_x :: "ColumnInput \<Rightarrow> real" where
  "e_min_x inp = 0.015 + 0.03 * hx inp"

definition e_min_y :: "ColumnInput \<Rightarrow> real" where
  "e_min_y inp = 0.015 + 0.03 * hy inp"

definition M1d_min_x :: "ColumnInput \<Rightarrow> real" where
  "M1d_min_x inp = Nd inp * e_min_x inp"

definition M1d_min_y :: "ColumnInput \<Rightarrow> real" where
  "M1d_min_y inp = Nd inp * e_min_y inp"

definition lambda_1 :: real where
  "lambda_1 = 35"

record SecondOrder =
  Mtot :: real
  e2 :: real

definition calcSecondOrder :: "ColumnInput \<Rightarrow> real \<Rightarrow> real \<Rightarrow> real \<Rightarrow> SecondOrder" where
  "calcSecondOrder inp lambda h_side M1d =
     (if lambda \<le> lambda_1 then \<lparr>Mtot = M1d, e2 = 0\<rparr>
      else
        (let nu = Nd inp / (Ac inp * col_fcd inp);
             curvature0 = 0.005 / (h_side * (nu + 0.5));
             curvature = (if curvature0 < 0.005 / h_side then 0.005 / h_side else curvature0);
             e2' = (le inp * le inp / 10) * curvature
         in \<lparr>Mtot = M1d + Nd inp * e2', e2 = e2'\<rparr>))"

definition M_tot_x :: "ColumnInput \<Rightarrow> real" where
  "M_tot_x inp =
     (if lambdaX inp > lambda_1
      then Mtot (calcSecondOrder inp (lambdaX inp) (hx inp) (M1d_min_x inp))
      else M1d_min_x inp)"

definition M_tot_y :: "ColumnInput \<Rightarrow> real" where
  "M_tot_y inp =
     (if lambdaY inp > lambda_1
      then Mtot (calcSecondOrder inp (lambdaY inp) (hy inp) (M1d_min_y inp))
      else M1d_min_y inp)"

subsection \<open>Required reinforcement\<close>

definition getOmega :: "real \<Rightarrow> real \<Rightarrow> real" where
  "getOmega nu mu =
     (if nu > 1.0 then 999
      else (let w = (nu - 0.6) + 3.0 * mu in if w < 0 then 0 else w))"

definition col_nu :: "ColumnInput \<Rightarrow> real" where
  "col_nu inp = Nd inp / (Ac inp * col_fcd inp)"

definition As_final :: "ColumnInput \<Rightarrow> real" where
  "As_final inp =
     (let mu_x = M_tot_x inp / (hy inp * hx inp * hx inp * col_fcd inp);
          mu_y = M_tot_y inp / (hx inp * hy inp * hy inp * col_fcd inp);
          omega_x = getOmega (col_nu inp) mu_x;
          omega_y = getOmega (col_nu inp) mu_y;
          omega_req = max omega_x omega_y;
          As_calc = (omega_req * Ac inp * col_fcd inp) / col_fyd inp * 10000;
          fyd_kN_cm2 = (col_fyk inp / 1.15) / 10;
          As_min_load = 0.15 * Nd inp / fyd_kN_cm2;
          As_min_geo = 0.004 * Ac inp * 10000;
          As_min = max As_min_load As_min_geo
      in max As_calc As_min)"

definition As_max :: "ColumnInput \<Rightarrow> real" where
  "As_max inp = 0.04 * Ac inp * 10000"

subsection \<open>Bar packing\<close>

text \<open>The number of bars and the bars on the side faces: \<open>(numBars, sideBarsVert,
  sideBarsHoriz)\<close>. The halves are of even numbers, so they are integers.\<close>

definition barPacking :: "ColumnInput \<Rightarrow> int \<times> int \<times> int" where
  "barPacking inp =
     (let barArea = pi * (col_longitudinalBarDiameter inp / 20)\<^sup>2;
          numBars0 = \<lceil>As_final inp / barArea\<rceil>;
          numBars = (if numBars0 < 4 then 4 else numBars0);
          remBars = numBars - 4
      in if remBars > 0 then
           (let perimeterRatio = widthY inp / (widthX inp + widthY inp);
                nVertTotal0 = \<lfloor>real_of_int remBars * perimeterRatio + 1 / 2\<rfloor>;
                nVertTotal1 = (if nVertTotal0 mod 2 \<noteq> 0 then nVertTotal0 - 1 else nVertTotal0);
                nVertTotal = (if nVertTotal1 < 0 then 0 else nVertTotal1);
                nHorizTotal0 = remBars - nVertTotal;
                odd = (nHorizTotal0 mod 2 \<noteq> 0);
                nHorizTotal = (if odd then nHorizTotal0 + 1 else nHorizTotal0);
                numBars' = (if odd then numBars + 1 else numBars)
            in (numBars', nVertTotal div 2, nHorizTotal div 2))
         else (numBars, 0, 0))"

subsection \<open>Stirrup rules\<close>

definition minStirrupDiaRule :: "ColumnInput \<Rightarrow> real" where
  "minStirrupDiaRule inp = max 5.0 (col_longitudinalBarDiameter inp / 4)"

definition maxSpacingRule :: "ColumnInput \<Rightarrow> real" where
  "maxSpacingRule inp =
     (let minDim = min (widthX inp) (widthY inp)
      in min 20 (min minDim (12 * (col_longitudinalBarDiameter inp / 10))))"

subsection \<open>The buckling chart\<close>

definition shapeFactor :: "SupportCondition \<Rightarrow> real \<Rightarrow> real" where
  "shapeFactor c xi =
     (if c = PINNED_PINNED then sin (pi * xi)
      else if c = FIXED_FREE then 1 - cos (pi * xi / 2)
      else if c = FIXED_FIXED then 0.5 * (1 - cos (2 * pi * xi))
      else (xi * xi) * (1 - xi) * 2.5)"

definition bucklingPoint :: "ColumnInput \<Rightarrow> real \<Rightarrow> nat \<Rightarrow> real \<times> real" where
  "bucklingPoint inp e_tot i =
     (let nPoints = 20;
          x = (real i / nPoints) * col_height inp;
          xi = x / col_height inp
      in (x, toFixed 3 (e_tot * shapeFactor (supportCondition inp) xi * 100)))"

subsection \<open>calculateColumn\<close>

definition calculateColumn :: "ColumnInput \<Rightarrow> CalculationResult" where
  "calculateColumn inp =
     (if maxLambda inp > 140 then slenderResult inp
      else
        (let isValid1 = (if col_nu inp > 1.0 then False else True);
             messages1 = (if col_nu inp > 1.0 then [ConcreteCrushing] else []);
             isValid2 = (if As_final inp > As_max inp then False else isValid1);
             messages2 =
               (if As_final inp > As_max inp
                then messages1 @ [ReinforcementAboveMaximum (toFixed 2 (As_final inp))
                                    (toFixed 2 (As_max inp))]
                else messages1);
             barArea = pi * (col_longitudinalBarDiameter inp / 20)\<^sup>2;
             numBars = fst (barPacking inp);
             sideBarsVert = fst (snd (barPacking inp));
             sideBarsHoriz = snd (snd (barPacking inp));
             As_provided = real_of_int numBars * barArea;
             cover = 3.0;
             messages3 =
               (if col_stirrupDiameter inp < minStirrupDiaRule inp
                then messages2 @ [StirrupDiameterTooSmall (col_stirrupDiameter inp)
                                    (col_longitudinalBarDiameter inp)
                                    (toFixed 1 (minStirrupDiaRule inp))]
                else messages2);
             messages4 =
               (if col_stirrupSpacing inp > maxSpacingRule inp
                then messages3 @ [StirrupSpacingTooLarge (col_stirrupSpacing inp)
                                    (toFixed 1 (maxSpacingRule inp))]
                else messages3);
             topRowBars = 2 + sideBarsHoriz;
             bottomRowBars = 2 + sideBarsHoriz;
             leftColBars = sideBarsVert;
             rightColBars = sideBarsVert;
             M_design = max (M_tot_x inp) (M_tot_y inp);
             e_tot = M_design / Nd inp
         in \<lparr>isValid = isValid2,
             messages = messages4,
             metrics =
               [\<lparr>label = ''Carga de Calculo (Nd)'', val = toFixed 2 (Nd inp)\<rparr>,
                \<lparr>label = ''Momento Total X'', val = toFixed 2 (M_tot_x inp)\<rparr>,
                \<lparr>label = ''Momento Total Y'', val = toFixed 2 (M_tot_y inp)\<rparr>,
                \<lparr>label = ''As Longitudinal'', val = toFixed 2 As_provided\<rparr>,
                \<lparr>label = ''Taxa de Armadura'',
                 val = toFixed 2 ((As_provided / (Ac inp * 10000)) * 100)\<rparr>],
             chartDataMoment = Some
               [(0, toFixed 2 (max (M_tot_x inp) (M_tot_y inp))),
                (col_height inp / 2, toFixed 2 (max (M_tot_x inp) (M_tot_y inp) * 0.6)),
                (col_height inp, toFixed 2 (max (M_tot_x inp) (M_tot_y inp)))],
             chartDataNormal = Some
               [(0, toFixed 2 (Nd inp)), (col_height inp, toFixed 2 (Nd inp))],
             chartDataBuckling = Some (map (bucklingPoint inp e_tot) [0..<21]),
             chartDataShear = None,
             chartDataDeflection = None,
             crossSection = Some
               \<lparr>cs_width = widthX inp,
                cs_height = widthY inp,
                cs_cover = cover,
                cs_stirrupDiameter = col_stirrupDiameter inp,
                cs_stirrupSpacing = col_stirrupSpacing inp,
                cs_stirrupHookAngle = 90,
                cs_bottomBarDiameter = col_longitudinalBarDiameter inp,
                cs_topBarDiameter = col_longitudinalBarDiameter inp,
                cs_bottomLayers = [bottomRowBars],
                cs_topLayers = [topRowBars],
                cs_leftLayers = Some [leftColBars],
                cs_rightLayers = Some [rightColBars],
                cs_stirrupLegs = 2\<rparr>,
             alternativeReinforcement = None\<rparr>))"


section \<open>The fixed-end actions subtracted per element\<close>

text \<open>
  The assembly of step 4 subtracts the fixed-end actions of all elements from the one
  vector \<open>F\<close>, where the two elements at a node share its entries. To speak of what was
  subtracted for one element, the calls of the four updates are listed in the order in
  which the loops of step 4 make them: an entry is the index of the element with \<open>R1\<close>, \<open>M1\<close>,
  \<open>R2\<close>, \<open>M2\<close>. The functions below repeat the loops of \<open>assembleDistributed\<close> and
  \<open>assemblePoint\<close> and return the entries instead of applying them; \<open>loadVector_log\<close> shows
  that \<open>F\<close> is the result of applying the entries of \<open>assemblyLog\<close> in order.
  \<open>subtractedForElement inp i\<close> is the sum of the entries of element \<open>i\<close>. These definitions
  are bookkeeping for the properties and are not part of the program.
\<close>

type_synonym FeaEntry = "nat \<times> real \<times> real \<times> real \<times> real"

definition applyEntry :: "real list \<Rightarrow> FeaEntry \<Rightarrow> real list" where
  "applyEntry F e = (case e of (i, r1, m1, r2, m2) \<Rightarrow> subtractFEA F i r1 m1 r2 m2)"

definition distributedElementEntries :: "real list \<Rightarrow> DistributedLoad \<Rightarrow> nat \<Rightarrow> FeaEntry list" where
  "distributedElementEntries ns d i =
     (let x1 = ns ! i; x2 = ns ! (i + 1); L = x2 - x1;
          start = max x1 (l_start d);
          endx = min x2 (l_end d)
      in if endx > start then
           (let totalLen = l_end d - l_start d;
                slope = (endMagnitude d - startMagnitude d) / (if totalLen = 0 then 1 else totalLen);
                q1 = startMagnitude d + slope * (start - l_start d);
                q2 = startMagnitude d + slope * (endx - l_start d);
                nSegs = 5;
                dx = (endx - start) / nSegs
            in map (\<lambda>k.
                 let px = start + dx * real k + dx / 2;
                     qx = q1 + (q2 - q1) * (real k + 0.5) / nSegs;
                     P = qx * dx;
                     a = px - x1;
                     b = x2 - px;
                     r1 = (P * b * b * (3 * a + b)) / (L * L * L);
                     r2 = (P * a * a * (a + 3 * b)) / (L * L * L);
                     m1 = (P * a * b * b) / (L * L);
                     m2 = - (P * a * a * b) / (L * L)
                 in (i, r1, m1, r2, m2)) [0..<5])
         else [])"

definition distributedEntries :: "real list \<Rightarrow> DistributedLoad \<Rightarrow> FeaEntry list" where
  "distributedEntries ns d = concat (map (distributedElementEntries ns d) [0..<length ns - 1])"

fun pointEntries :: "real list \<Rightarrow> PointLoad \<Rightarrow> nat list \<Rightarrow> FeaEntry list" where
  "pointEntries ns p [] = []"
| "pointEntries ns p (i # rest) =
     (let x1 = ns ! i; x2 = ns ! (i + 1)
      in if PointLoad.position p \<ge> x1 \<and> PointLoad.position p \<le> x2 then
           (let L = x2 - x1;
                a = PointLoad.position p - x1;
                b = x2 - PointLoad.position p
            in if L < 1 / 10 ^ 5 then pointEntries ns p rest
               else
                 (let P = magnitude p;
                      r1 = (P * b * b * (3 * a + b)) / (L * L * L);
                      r2 = (P * a * a * (a + 3 * b)) / (L * L * L);
                      m1 = (P * a * b * b) / (L * L);
                      m2 = - (P * a * a * b) / (L * L)
                  in [(i, r1, m1, r2, m2)]))
         else pointEntries ns p rest)"

definition assemblyLog :: "BeamInput \<Rightarrow> FeaEntry list" where
  "assemblyLog inp =
     (let ns = nodes inp
      in concat (map (distributedEntries ns) (distributedLoads inp))
         @ concat (map (\<lambda>p. pointEntries ns p [0..<length ns - 1]) (pointLoads inp)))"

definition addEntry :: "nat \<Rightarrow> real list \<Rightarrow> FeaEntry \<Rightarrow> real list" where
  "addEntry i fea e =
     (case e of (j, r1, m1, r2, m2) \<Rightarrow>
        if j = i then [fea ! 0 + r1, fea ! 1 + m1, fea ! 2 + r2, fea ! 3 + m2] else fea)"

definition subtractedForElement :: "BeamInput \<Rightarrow> nat \<Rightarrow> real list" where
  "subtractedForElement inp i = foldl (addEntry i) [0, 0, 0, 0] (assemblyLog inp)"

text \<open>A point load is interior when, in every element whose closed interval contains it, it
  lies more than \<open>1e-5\<close> from both ends.\<close>

definition interiorLoad :: "real list \<Rightarrow> PointLoad \<Rightarrow> bool" where
  "interiorLoad ns p \<longleftrightarrow>
     list_all (\<lambda>j. ns ! j \<le> PointLoad.position p \<and> PointLoad.position p \<le> ns ! (j + 1)
                 \<longrightarrow> min (PointLoad.position p - ns ! j) (ns ! (j + 1) - PointLoad.position p)
                       > 1 / 10 ^ 5)
       [0..<length ns - 1]"


section \<open>Example inputs\<close>

text \<open>
  \<open>exampleBeam\<close> and \<open>exampleColumn\<close> are the inputs with which the application starts
  (App.tsx); the others are variations of them. \<open>lightSolver\<close> and \<open>heavySolver\<close> are two
  values for what the solver returns, the first with the midspan moment \<open>15 \<cdot> 5\<^sup>2 / 8\<close> of
  \<open>exampleBeam\<close>, the second with a moment and a deflection far beyond the section;
  \<open>boundarySolver\<close> has the moment for which \<open>Kmd\<close> of the bottom face of \<open>exampleBeam\<close> is
  exactly \<open>0.45\<close>.
\<close>

definition exampleBeam :: BeamInput where
  "exampleBeam =
     \<lparr>span = 5,
      supports = [\<lparr>Support.position = 0, stype = pin\<rparr>, \<lparr>Support.position = 5, stype = pin\<rparr>],
      pointLoads = [],
      distributedLoads = [\<lparr>l_start = 0, l_end = 5, startMagnitude = 15, endMagnitude = 15\<rparr>],
      width = 20, height = 40, fck = 25, fyk = 500, concreteCover = 2.5,
      longitudinalBarDiameter = 10, topBarDiameter = 8, stirrupDiameter = 5,
      stirrupSpacing = 15, stirrupHookAngle = 90, layers = 1\<rparr>"

definition onePinBeam :: BeamInput where
  "onePinBeam = exampleBeam\<lparr>supports := [\<lparr>Support.position = 0, stype = pin\<rparr>]\<rparr>"

definition tipLoadCantilever :: BeamInput where
  "tipLoadCantilever =
     exampleBeam\<lparr>span := 2,
        supports := [\<lparr>Support.position = 0, stype = fixed\<rparr>],
        pointLoads := [\<lparr>PointLoad.position = 2, magnitude = 10\<rparr>],
        distributedLoads := []\<rparr>"

definition midLoadBeam :: BeamInput where
  "midLoadBeam = exampleBeam\<lparr>pointLoads := [\<lparr>PointLoad.position = 2.5, magnitude = 20\<rparr>]\<rparr>"

definition lightSolver :: SolverResult where
  "lightSolver =
     \<lparr>SolverResult.chartDataMoment = [], SolverResult.chartDataShear = [],
      SolverResult.chartDataDeflection = [],
      maxMomentPos = 46.875, maxMomentNeg = 0, maxShear = 37.5, maxDeflection = - 0.5,
      R1 = 0, R2 = 0\<rparr>"

definition heavySolver :: SolverResult where
  "heavySolver = lightSolver\<lparr>maxMomentPos := 1000, maxDeflection := - 3\<rparr>"

definition boundarySolver :: SolverResult where
  "boundarySolver = lightSolver\<lparr>maxMomentPos := 239805 / 1568\<rparr>"

definition exampleColumn :: ColumnInput where
  "exampleColumn =
     \<lparr>col_height = 3, axialLoad = 500, widthX = 20, widthY = 20, col_fck = 25, col_fyk = 500,
      supportCondition = PINNED_PINNED, col_longitudinalBarDiameter = 10,
      col_stirrupDiameter = 5, col_stirrupSpacing = 15\<rparr>"

definition wideColumn :: ColumnInput where
  "wideColumn = exampleColumn\<lparr>widthX := 40\<rparr>"

definition deepColumn :: ColumnInput where
  "deepColumn = exampleColumn\<lparr>widthY := 40\<rparr>"

definition slenderColumn :: ColumnInput where
  "slenderColumn = exampleColumn\<lparr>col_height := 10\<rparr>"

definition nearLimitColumn :: ColumnInput where
  "nearLimitColumn = exampleColumn\<lparr>col_height := 8.09\<rparr>"

definition thinStirrupColumn :: ColumnInput where
  "thinStirrupColumn = exampleColumn\<lparr>col_stirrupDiameter := 4, col_stirrupSpacing := 30\<rparr>"

definition slenderThinStirrupColumn :: ColumnInput where
  "slenderThinStirrupColumn = slenderColumn\<lparr>col_stirrupDiameter := 4, col_stirrupSpacing := 30\<rparr>"


section \<open>Auxiliary facts\<close>

subsection \<open>The layer loop and the messages of a face\<close>

lemma placeLayers_messages_upper:
  "set (snd (snd (placeLayers lay mb face lc rem cur v msgs))) \<subseteq> set msgs \<union> {BarsDoNotFit face lay}"
proof (induction lay mb face lc rem cur v msgs rule: placeLayers.induct)
  case (1 lay mb face lc rem cur v msgs)
  show ?case
  proof (cases "rem > 0")
    case False
    then show ?thesis by (subst placeLayers.simps) auto
  next
    case True
    show ?thesis
    proof (cases "cur \<ge> lay")
      case over: True
      from "1.IH"(1)[OF True over] show ?thesis
        using True over by (subst placeLayers.simps) auto
    next
      case fits: False
      from "1.IH"(2)[OF True fits refl] show ?thesis
        using True fits by (subst placeLayers.simps) (auto simp: Let_def)
    qed
  qed
qed

lemma placeLayers_messages_lower:
  "set msgs \<subseteq> set (snd (snd (placeLayers lay mb face lc rem cur v msgs)))"
proof (induction lay mb face lc rem cur v msgs rule: placeLayers.induct)
  case (1 lay mb face lc rem cur v msgs)
  show ?case
  proof (cases "rem > 0")
    case False
    then show ?thesis by (subst placeLayers.simps) auto
  next
    case True
    show ?thesis
    proof (cases "cur \<ge> lay")
      case over: True
      from "1.IH"(1)[OF True over] show ?thesis
        using True over by (subst placeLayers.simps) auto
    next
      case fits: False
      from "1.IH"(2)[OF True fits refl] show ?thesis
        using True fits by (subst placeLayers.simps) (auto simp: Let_def)
    qed
  qed
qed

lemma placeLayers_valid:
  "fst (snd (placeLayers lay mb face lc rem cur v msgs)) \<Longrightarrow> v"
proof (induction lay mb face lc rem cur v msgs rule: placeLayers.induct)
  case (1 lay mb face lc rem cur v msgs)
  show ?case
  proof (cases "rem > 0")
    case False
    with "1.prems" show ?thesis by (subst (asm) placeLayers.simps) simp
  next
    case True
    show ?thesis
    proof (cases "cur \<ge> lay")
      case over: True
      from "1.prems" True over
      have "fst (snd (placeLayers lay mb face
             (if 0 < cur \<and> nat (cur - 1) < length lc
              then lc[nat (cur - 1) := lc ! nat (cur - 1) + rem] else lc)
             0 cur False (msgs @ [BarsDoNotFit face lay])))"
        by (subst (asm) placeLayers.simps) simp
      from "1.IH"(1)[OF True over this] show ?thesis by simp
    next
      case fits: False
      from "1.prems" True fits
      have "fst (snd (placeLayers lay mb face (lc @ [min rem mb]) (rem - min rem mb) (cur + 1) v msgs))"
        by (subst (asm) placeLayers.simps) (simp add: Let_def)
      from "1.IH"(2)[OF True fits refl this] show ?thesis .
    qed
  qed
qed

lemma flexure_messages:
  "snd (snd (flexure inp Md bd face)) =
     (if Kmd inp Md bd > 0.45 then [SectionInsufficient face] else [])"
  by (simp add: flexure_def Let_def)

lemma flexure_valid:
  "fst (snd (flexure inp Md bd face)) \<longleftrightarrow> \<not> Kmd inp Md bd > 0.45"
  by (simp add: flexure_def Let_def)

lemma calculateReinforcement_messages_upper:
  "set (snd (calculateReinforcement inp Md bd face))
     \<subseteq> {SectionInsufficient face, BarsDoNotFit face (layers inp)}"
  using placeLayers_messages_upper
  by (fastforce simp: calculateReinforcement_def Let_def flexure_messages)

lemma calculateReinforcement_messages_lower:
  "Kmd inp Md bd > 0.45 \<Longrightarrow> SectionInsufficient face \<in> set (snd (calculateReinforcement inp Md bd face))"
  using placeLayers_messages_lower
  by (fastforce simp: calculateReinforcement_def Let_def flexure_messages)

lemma calculateReinforcement_not_insufficient:
  assumes "\<not> Kmd inp Md bd > 0.45"
  shows "SectionInsufficient f \<notin> set (snd (calculateReinforcement inp Md bd face))"
proof -
  have "set (snd (calculateReinforcement inp Md bd face)) \<subseteq> {BarsDoNotFit face (layers inp)}"
    using placeLayers_messages_upper assms
    by (fastforce simp: calculateReinforcement_def Let_def flexure_messages)
  then show ?thesis by auto
qed

lemma calculateReinforcement_invalid:
  "Kmd inp Md bd > 0.45 \<Longrightarrow> \<not> valid (fst (calculateReinforcement inp Md bd face))"
  using placeLayers_valid
  by (fastforce simp: calculateReinforcement_def Let_def flexure_valid)


text \<open>The required area and the number of bars of the record that
  \<open>calculateReinforcement\<close> returns.\<close>

lemma calculateReinforcement_as_req:
  "as_req (fst (calculateReinforcement inp MomentD barDia face)) =
     (if (if MomentD < 0.5 then 0 else fst (flexure inp MomentD barDia face)) < As_min inp
      then As_min inp
      else (if MomentD < 0.5 then 0 else fst (flexure inp MomentD barDia face)))"
  by (simp add: calculateReinforcement_def Let_def)

lemma calculateReinforcement_count:
  "count (fst (calculateReinforcement inp MomentD barDia face)) =
     (if MomentD < 0.5 then
        (if As_min inp > 2 * (pi * (barDia / 20)\<^sup>2)
         then (if \<lceil>As_min inp / (pi * (barDia / 20)\<^sup>2)\<rceil> < 2 then 2
               else \<lceil>As_min inp / (pi * (barDia / 20)\<^sup>2)\<rceil>)
         else 2)
      else (if \<lceil>as_req (fst (calculateReinforcement inp MomentD barDia face))
                 / (pi * (barDia / 20)\<^sup>2)\<rceil> < 2 then 2
            else \<lceil>as_req (fst (calculateReinforcement inp MomentD barDia face))
                 / (pi * (barDia / 20)\<^sup>2)\<rceil>))"
  by (simp only: calculateReinforcement_def Let_def fst_conv Reinforcement.simps)


subsection \<open>The fields of the beam result\<close>

lemma beamDesign_messages:
  "messages (beamDesign inp sr) =
     (if \<bar>maxDeflection sr\<bar> > allowableDeflection inp
      then [DeflectionExceeded (toFixed 2 \<bar>maxDeflection sr\<bar>) (limitDivisor inp)
              (toFixed 2 (allowableDeflection inp))]
      else [])
     @ snd (calculateReinforcement inp (M_d_pos sr) (longitudinalBarDiameter inp) bottomFace)
     @ snd (calculateReinforcement inp (M_d_neg sr) (topBarDia inp) topFace)
     @ (if rho_sw_provided inp < rho_sw_min inp then [StirrupRatioInsufficient] else [])"
  by (simp add: beamDesign_def Let_def)

lemma beamDesign_isValid:
  "isValid (beamDesign inp sr) \<longleftrightarrow>
     valid (fst (calculateReinforcement inp (M_d_pos sr) (longitudinalBarDiameter inp) bottomFace))
     \<and> valid (fst (calculateReinforcement inp (M_d_neg sr) (topBarDia inp) topFace))
     \<and> \<not> rho_sw_provided inp < rho_sw_min inp"
  by (simp add: beamDesign_def Let_def)

lemma beamDesign_not_unstable:
  "StructureUnstable \<notin> set (messages (beamDesign inp sr))"
  using calculateReinforcement_messages_upper[of inp "M_d_pos sr" "longitudinalBarDiameter inp" bottomFace]
        calculateReinforcement_messages_upper[of inp "M_d_neg sr" "topBarDia inp" topFace]
  by (auto simp: beamDesign_messages)

lemma calculateBeam_stable:
  "isStable inp \<Longrightarrow> calculateBeam inp = beamDesign inp (solveBeam inp)"
  by (simp add: calculateBeam_def)


subsection \<open>The fields of the column result\<close>

lemma calculateColumn_not_slender:
  "\<not> maxLambda inp > 140 \<Longrightarrow>
     length (metrics (calculateColumn inp)) = 5
     \<and> metrics (calculateColumn inp) ! 1 = \<lparr>label = ''Momento Total X'', val = toFixed 2 (M_tot_x inp)\<rparr>
     \<and> metrics (calculateColumn inp) ! 2 = \<lparr>label = ''Momento Total Y'', val = toFixed 2 (M_tot_y inp)\<rparr>"
  by (simp add: calculateColumn_def Let_def)

lemma calculateColumn_messages:
  "\<not> maxLambda inp > 140 \<Longrightarrow>
     messages (calculateColumn inp) =
       (if col_nu inp > 1.0 then [ConcreteCrushing] else [])
       @ (if As_final inp > As_max inp
          then [ReinforcementAboveMaximum (toFixed 2 (As_final inp)) (toFixed 2 (As_max inp))] else [])
       @ (if col_stirrupDiameter inp < minStirrupDiaRule inp
          then [StirrupDiameterTooSmall (col_stirrupDiameter inp) (col_longitudinalBarDiameter inp)
                  (toFixed 1 (minStirrupDiaRule inp))] else [])
       @ (if col_stirrupSpacing inp > maxSpacingRule inp
          then [StirrupSpacingTooLarge (col_stirrupSpacing inp) (toFixed 1 (maxSpacingRule inp))] else [])"
  by (simp add: calculateColumn_def Let_def)

lemma calculateColumn_isValid:
  "isValid (calculateColumn inp) \<longleftrightarrow>
     \<not> maxLambda inp > 140 \<and> \<not> col_nu inp > 1.0 \<and> \<not> As_final inp > As_max inp"
  by (simp add: calculateColumn_def Let_def slenderResult_def)

lemma calculateColumn_slender:
  "maxLambda inp > 140 \<Longrightarrow> calculateColumn inp = slenderResult inp"
  by (simp add: calculateColumn_def)

text \<open>The stirrup diameter and spacing enter none of the quantities that decide the
  validity of a column.\<close>

lemma stirrups_irrelevant_base:
  "Nd (inp\<lparr>col_stirrupDiameter := sd, col_stirrupSpacing := ss\<rparr>) = Nd inp"
  "hx (inp\<lparr>col_stirrupDiameter := sd, col_stirrupSpacing := ss\<rparr>) = hx inp"
  "hy (inp\<lparr>col_stirrupDiameter := sd, col_stirrupSpacing := ss\<rparr>) = hy inp"
  "col_fcd (inp\<lparr>col_stirrupDiameter := sd, col_stirrupSpacing := ss\<rparr>) = col_fcd inp"
  "col_fyd (inp\<lparr>col_stirrupDiameter := sd, col_stirrupSpacing := ss\<rparr>) = col_fyd inp"
  "le (inp\<lparr>col_stirrupDiameter := sd, col_stirrupSpacing := ss\<rparr>) = le inp"
  by (simp_all add: Nd_def hx_def hy_def col_fcd_def col_fyd_def le_def)

lemma stirrups_irrelevant_section:
  "Ac (inp\<lparr>col_stirrupDiameter := sd, col_stirrupSpacing := ss\<rparr>) = Ac inp"
  "lambdaX (inp\<lparr>col_stirrupDiameter := sd, col_stirrupSpacing := ss\<rparr>) = lambdaX inp"
  "lambdaY (inp\<lparr>col_stirrupDiameter := sd, col_stirrupSpacing := ss\<rparr>) = lambdaY inp"
  "M1d_min_x (inp\<lparr>col_stirrupDiameter := sd, col_stirrupSpacing := ss\<rparr>) = M1d_min_x inp"
  "M1d_min_y (inp\<lparr>col_stirrupDiameter := sd, col_stirrupSpacing := ss\<rparr>) = M1d_min_y inp"
  by (simp_all add: Ac_def lambdaX_def lambdaY_def M1d_min_x_def M1d_min_y_def e_min_x_def e_min_y_def
        stirrups_irrelevant_base)

lemma stirrups_irrelevant_second_order:
  "calcSecondOrder (inp\<lparr>col_stirrupDiameter := sd, col_stirrupSpacing := ss\<rparr>) l h m
     = calcSecondOrder inp l h m"
  by (simp only: calcSecondOrder_def stirrups_irrelevant_base stirrups_irrelevant_section)

lemma stirrups_irrelevant_moments:
  "M_tot_x (inp\<lparr>col_stirrupDiameter := sd, col_stirrupSpacing := ss\<rparr>) = M_tot_x inp"
  "M_tot_y (inp\<lparr>col_stirrupDiameter := sd, col_stirrupSpacing := ss\<rparr>) = M_tot_y inp"
  "col_nu (inp\<lparr>col_stirrupDiameter := sd, col_stirrupSpacing := ss\<rparr>) = col_nu inp"
  "maxLambda (inp\<lparr>col_stirrupDiameter := sd, col_stirrupSpacing := ss\<rparr>) = maxLambda inp"
  "As_max (inp\<lparr>col_stirrupDiameter := sd, col_stirrupSpacing := ss\<rparr>) = As_max inp"
  by (simp_all only: M_tot_x_def M_tot_y_def col_nu_def maxLambda_def As_max_def
        stirrups_irrelevant_base stirrups_irrelevant_section stirrups_irrelevant_second_order)

lemma stirrups_irrelevant_As_final:
  "As_final (inp\<lparr>col_stirrupDiameter := sd, col_stirrupSpacing := ss\<rparr>) = As_final inp"
proof -
  have "col_fyk (inp\<lparr>col_stirrupDiameter := sd, col_stirrupSpacing := ss\<rparr>) = col_fyk inp" by simp
  then show ?thesis
    by (simp only: As_final_def stirrups_irrelevant_base stirrups_irrelevant_section
          stirrups_irrelevant_moments)
qed


subsection \<open>The assembly log and the recovery of the fixed-end actions\<close>

lemma foldl_nested_concat:
  "foldl (\<lambda>F i. foldl g F (h i)) F xs = foldl g F (concat (map h xs))"
  by (induction xs arbitrary: F) simp_all

lemma assembleDistributed_log:
  "assembleDistributed ns F d = foldl applyEntry F (distributedEntries ns d)"
proof -
  have body: "(\<lambda>F i.
        let x1 = ns ! i; x2 = ns ! (i + 1); L = x2 - x1;
            start = max x1 (l_start d);
            endx = min x2 (l_end d)
        in if endx > start then
             (let totalLen = l_end d - l_start d;
                  slope = (endMagnitude d - startMagnitude d) / (if totalLen = 0 then 1 else totalLen);
                  q1 = startMagnitude d + slope * (start - l_start d);
                  q2 = startMagnitude d + slope * (endx - l_start d);
                  nSegs = 5;
                  dx = (endx - start) / nSegs
              in foldl (\<lambda>F k.
                   let px = start + dx * real k + dx / 2;
                       qx = q1 + (q2 - q1) * (real k + 0.5) / nSegs;
                       P = qx * dx;
                       a = px - x1;
                       b = x2 - px;
                       R1 = (P * b * b * (3 * a + b)) / (L * L * L);
                       R2 = (P * a * a * (a + 3 * b)) / (L * L * L);
                       M1 = (P * a * b * b) / (L * L);
                       M2 = - (P * a * a * b) / (L * L)
                   in subtractFEA F i R1 M1 R2 M2) F [0..<5])
           else F) = (\<lambda>F i. foldl applyEntry F (distributedElementEntries ns d i))"
    by (intro ext) (simp add: distributedElementEntries_def Let_def foldl_map applyEntry_def)
  show ?thesis
    unfolding assembleDistributed_def body distributedEntries_def
    by (rule foldl_nested_concat)
qed

lemma assemblePoint_log:
  "assemblePoint ns p elems F = foldl applyEntry F (pointEntries ns p elems)"
  by (induction elems) (simp_all add: Let_def applyEntry_def)

lemma loadVector_log:
  "loadVector inp = foldl applyEntry (createVector (length (nodes inp) * 2)) (assemblyLog inp)"
proof -
  have d: "foldl (assembleDistributed ns) F ds = foldl applyEntry F (concat (map (distributedEntries ns) ds))"
    for ns F ds
    by (simp only: assembleDistributed_log[abs_def] foldl_nested_concat)
  have p: "foldl (\<lambda>F p. assemblePoint ns p elems F) F ps
             = foldl applyEntry F (concat (map (\<lambda>p. pointEntries ns p elems) ps))" for ns elems F ps
    by (simp only: assemblePoint_log foldl_nested_concat)
  show ?thesis
    by (simp add: loadVector_def assemblyLog_def Let_def d p)
qed

lemma foldl_invariant_cong:
  assumes "P a"
    and "\<And>a x. P a \<Longrightarrow> x \<in> set xs \<Longrightarrow> f a x = g a x \<and> P (f a x)"
  shows "foldl f a xs = foldl g a xs \<and> P (foldl f a xs)"
  using assms
proof (induction xs arbitrary: a)
  case Nil
  then show ?case by simp
next
  case (Cons x xs)
  have s: "f a x = g a x \<and> P (f a x)"
    by (rule Cons.prems(2)[OF Cons.prems(1)]) simp
  have ih: "foldl f (f a x) xs = foldl g (f a x) xs \<and> P (foldl f (f a x) xs)"
  proof (rule Cons.IH)
    show "P (f a x)" using s by blast
  next
    fix a' y
    assume p: "P a'" and "y \<in> set xs"
    then have "y \<in> set (x # xs)" by simp
    from Cons.prems(2)[OF p this] show "f a' y = g a' y \<and> P (f a' y)" .
  qed
  from s have e: "g a x = f a x" by simp
  show ?case unfolding foldl_Cons e using ih .
qed

lemma addEntry_length:
  "length fea = 4 \<Longrightarrow> length (addEntry i fea e) = 4"
  by (cases e) (simp add: addEntry_def)

lemma foldl_addEntry_length:
  "length fea = 4 \<Longrightarrow> length (foldl (addEntry i) fea es) = 4"
  by (induction es arbitrary: fea) (simp_all add: addEntry_length)

lemma foldl_addEntry_other:
  "\<forall>e \<in> set es. fst e \<noteq> i \<Longrightarrow> foldl (addEntry i) fea es = fea"
  by (induction es arbitrary: fea) (auto simp: addEntry_def)

lemma foldl_addEntry_select:
  assumes "\<And>j. \<forall>e \<in> set (h j). fst e = j" and "i < m"
  shows "foldl (addEntry i) fea (concat (map h [0..<m])) = foldl (addEntry i) fea (h i)"
  using assms(2)
proof (induction m)
  case 0
  then show ?case by simp
next
  case (Suc m)
  show ?case
  proof (cases "i < m")
    case True
    have "\<forall>e \<in> set (h m). fst e \<noteq> i" using assms(1)[of m] True by auto
    then show ?thesis using Suc.IH[OF True] by (simp add: foldl_addEntry_other)
  next
    case False
    with Suc.prems have im: "i = m" by simp
    have "\<forall>e \<in> set (concat (map h [0..<m])). fst e \<noteq> i"
      using assms(1) im by auto
    then show ?thesis using im by (simp add: foldl_addEntry_other)
  qed
qed

lemma distributedElementEntries_index:
  "\<forall>e \<in> set (distributedElementEntries ns d j). fst e = j"
  by (auto simp: distributedElementEntries_def Let_def)

lemma update4:
  "length fea = 4 \<Longrightarrow>
     (((fea[0 := a])[1 := b])[2 := c])[3 := d] = [a, b, c, d]"
  by (cases fea; cases "tl fea"; cases "tl (tl fea)"; cases "tl (tl (tl fea))") auto

lemma update4_nth:
  "length fea = 4 \<Longrightarrow> (fea[0 := a]) ! 1 = fea ! 1"
  "length fea = 4 \<Longrightarrow> ((fea[0 := a])[1 := b]) ! 2 = fea ! 2"
  "length fea = 4 \<Longrightarrow> (((fea[0 := a])[1 := b])[2 := c]) ! 3 = fea ! 3"
  by simp_all

lemma distributed_element_agrees:
  assumes "length fea = 4"
  shows "foldl (addEntry i) fea (distributedElementEntries ns d i)
           = feaDistributed (ns ! i) (ns ! (i + 1)) fea d
       \<and> length (feaDistributed (ns ! i) (ns ! (i + 1)) fea d) = 4"
proof (cases "min (ns ! (i + 1)) (l_end d) > max (ns ! i) (l_start d)")
  case False
  show ?thesis using assms
    by (simp only: distributedElementEntries_def feaDistributed_def Let_def if_not_P[OF False]
          foldl_Nil HOL.simp_thms)
next
  case True
  define seg where "seg = (\<lambda>k::nat.
      let x1 = ns ! i; x2 = ns ! (i + 1); L = x2 - x1;
          start = max x1 (l_start d);
          endx = min x2 (l_end d);
          totalLen = l_end d - l_start d;
          slope = (endMagnitude d - startMagnitude d) / (if totalLen = 0 then 1 else totalLen);
          q1 = startMagnitude d + slope * (start - l_start d);
          q2 = startMagnitude d + slope * (endx - l_start d);
          nSegs = 5;
          dx = (endx - start) / nSegs;
          px = start + dx * real k + dx / 2;
          qx = q1 + (q2 - q1) * (real k + 0.5) / nSegs;
          P = qx * dx;
          a = px - x1;
          b = x2 - px
      in (P, a, b, L))"
  define asm where "asm = (\<lambda>(fea::real list) (k::nat). case seg k of (P, a, b, L) \<Rightarrow>
            [fea ! 0 + (P * b * b * (3 * a + b)) / (L * L * L),
             fea ! 1 + (P * a * b * b) / (L * L),
             fea ! 2 + (P * a * a * (a + 3 * b)) / (L * L * L),
             fea ! 3 + - (P * a * a * b) / (L * L)])"
  define rec where "rec = (\<lambda>(fea::real list) (k::nat). case seg k of (P, a, b, L) \<Rightarrow>
            (((fea[0 := fea ! 0 + (P * b * b * (3 * a + b)) / (L * L * L)])
               [1 := (fea[0 := fea ! 0 + (P * b * b * (3 * a + b)) / (L * L * L)]) ! 1
                       + (P * a * b * b) / (L * L)])
               [2 := ((fea[0 := fea ! 0 + (P * b * b * (3 * a + b)) / (L * L * L)])
               [1 := (fea[0 := fea ! 0 + (P * b * b * (3 * a + b)) / (L * L * L)]) ! 1
                       + (P * a * b * b) / (L * L)]) ! 2 + (P * a * a * (a + 3 * b)) / (L * L * L)])
               [3 := (((fea[0 := fea ! 0 + (P * b * b * (3 * a + b)) / (L * L * L)])
               [1 := (fea[0 := fea ! 0 + (P * b * b * (3 * a + b)) / (L * L * L)]) ! 1
                       + (P * a * b * b) / (L * L)])
               [2 := ((fea[0 := fea ! 0 + (P * b * b * (3 * a + b)) / (L * L * L)])
               [1 := (fea[0 := fea ! 0 + (P * b * b * (3 * a + b)) / (L * L * L)]) ! 1
                       + (P * a * b * b) / (L * L)]) ! 2 + (P * a * a * (a + 3 * b)) / (L * L * L)]) ! 3
                      - (P * a * a * b) / (L * L)])"
  have lhs: "foldl (addEntry i) fea (distributedElementEntries ns d i) = foldl asm fea [0..<5]"
    by (simp only: distributedElementEntries_def Let_def if_P[OF True] foldl_map addEntry_def
          prod.case seg_def asm_def HOL.simp_thms if_True)
  have rhs: "feaDistributed (ns ! i) (ns ! (i + 1)) fea d = foldl rec fea [0..<5]"
    by (simp only: feaDistributed_def Let_def if_P[OF True] prod.case seg_def rec_def)
  have step: "asm f k = rec f k \<and> length (asm f k) = 4" if len: "length f = 4" for f k
  proof (cases "seg k")
    case (fields P a b L)
    show ?thesis
      unfolding asm_def rec_def fields prod.case
      by (simp only: update4[OF len] update4_nth[OF len]) simp
  qed
  have c: "foldl asm fea [0..<5] = foldl rec fea [0..<5] \<and> length (foldl asm fea [0..<5]) = 4"
  proof (rule foldl_invariant_cong[where P = "\<lambda>f. length f = 4"])
    show "length fea = 4" by fact
    show "asm a x = rec a x \<and> length (asm a x) = 4" if "length a = 4" for a x
      using step[OF that] .
  qed
  then show ?thesis unfolding lhs rhs by metis
qed

lemma sorted_nodes: "sorted (nodes inp)"
  by (simp add: nodes_def)

lemma feaPoint_outside:
  assumes "\<not> (PointLoad.position p \<ge> x1 \<and> PointLoad.position p \<le> x2)"
  shows "feaPoint x1 x2 fea p = fea"
  by (simp only: feaPoint_def Let_def if_not_P[OF assms])

lemma feaPoint_inside:
  assumes i: "PointLoad.position p \<ge> x1 \<and> PointLoad.position p \<le> x2"
    and g: "\<bar>x2 - x1\<bar> > 1 / 10 ^ 5
            \<and> min (PointLoad.position p - x1) (x2 - PointLoad.position p) > 1 / 10 ^ 5"
    and len: "length fea = 4"
  shows "feaPoint x1 x2 fea p =
     [fea ! 0 + (magnitude p * (x2 - PointLoad.position p) * (x2 - PointLoad.position p)
                  * (3 * (PointLoad.position p - x1) + (x2 - PointLoad.position p)))
                / ((x2 - x1) * (x2 - x1) * (x2 - x1)),
      fea ! 1 + (magnitude p * (PointLoad.position p - x1) * (x2 - PointLoad.position p)
                  * (x2 - PointLoad.position p)) / ((x2 - x1) * (x2 - x1)),
      fea ! 2 + (magnitude p * (PointLoad.position p - x1) * (PointLoad.position p - x1)
                  * ((PointLoad.position p - x1) + 3 * (x2 - PointLoad.position p)))
                / ((x2 - x1) * (x2 - x1) * (x2 - x1)),
      fea ! 3 - (magnitude p * (PointLoad.position p - x1) * (PointLoad.position p - x1)
                  * (x2 - PointLoad.position p)) / ((x2 - x1) * (x2 - x1))]"
  by (simp only: feaPoint_def Let_def if_P[OF i] if_P[OF g] update4[OF len] update4_nth[OF len])

lemma pointEntries_outside:
  assumes "\<not> (PointLoad.position p \<ge> ns ! j \<and> PointLoad.position p \<le> ns ! (j + 1))"
  shows "pointEntries ns p (j # rest) = pointEntries ns p rest"
  by (simp only: pointEntries.simps Let_def if_not_P[OF assms])

lemma pointEntries_inside:
  assumes i: "PointLoad.position p \<ge> ns ! j \<and> PointLoad.position p \<le> ns ! (j + 1)"
    and g: "\<not> ns ! (j + 1) - ns ! j < 1 / 10 ^ 5"
  shows "pointEntries ns p (j # rest) =
     [(j,
       (magnitude p * (ns ! (j + 1) - PointLoad.position p) * (ns ! (j + 1) - PointLoad.position p)
          * (3 * (PointLoad.position p - ns ! j) + (ns ! (j + 1) - PointLoad.position p)))
        / ((ns ! (j + 1) - ns ! j) * (ns ! (j + 1) - ns ! j) * (ns ! (j + 1) - ns ! j)),
       (magnitude p * (PointLoad.position p - ns ! j) * (ns ! (j + 1) - PointLoad.position p)
          * (ns ! (j + 1) - PointLoad.position p)) / ((ns ! (j + 1) - ns ! j) * (ns ! (j + 1) - ns ! j)),
       (magnitude p * (PointLoad.position p - ns ! j) * (PointLoad.position p - ns ! j)
          * ((PointLoad.position p - ns ! j) + 3 * (ns ! (j + 1) - PointLoad.position p)))
        / ((ns ! (j + 1) - ns ! j) * (ns ! (j + 1) - ns ! j) * (ns ! (j + 1) - ns ! j)),
       - (magnitude p * (PointLoad.position p - ns ! j) * (PointLoad.position p - ns ! j)
          * (ns ! (j + 1) - PointLoad.position p)) / ((ns ! (j + 1) - ns ! j) * (ns ! (j + 1) - ns ! j)))]"
  by (simp only: pointEntries.simps Let_def if_P[OF i] if_not_P[OF g])

lemma interiorLoad_element:
  assumes "interiorLoad ns p" and "j + 1 < length ns"
    and "PointLoad.position p \<ge> ns ! j \<and> PointLoad.position p \<le> ns ! (j + 1)"
  shows "min (PointLoad.position p - ns ! j) (ns ! (j + 1) - PointLoad.position p) > 1 / 10 ^ 5"
proof -
  from assms(2) have "j \<in> set [0..<length ns - 1]" by simp
  with assms(1,3) show ?thesis unfolding interiorLoad_def list_all_iff by blast
qed

lemma interiorLoad_unique:
  assumes s: "sorted ns" and int: "interiorLoad ns p"
    and i: "i + 1 < length ns" and j: "j + 1 < length ns"
    and pi: "PointLoad.position p \<ge> ns ! i \<and> PointLoad.position p \<le> ns ! (i + 1)"
    and pj: "PointLoad.position p \<ge> ns ! j \<and> PointLoad.position p \<le> ns ! (j + 1)"
  shows "i = j"
proof (rule ccontr)
  assume ne: "i \<noteq> j"
  have gi: "min (PointLoad.position p - ns ! i) (ns ! (i + 1) - PointLoad.position p) > 1 / 10 ^ 5"
    by (rule interiorLoad_element[OF int i pi])
  have gj: "min (PointLoad.position p - ns ! j) (ns ! (j + 1) - PointLoad.position p) > 1 / 10 ^ 5"
    by (rule interiorLoad_element[OF int j pj])
  show False
  proof (cases "i < j")
    case True
    then have "ns ! (i + 1) \<le> ns ! j" using s j by (simp add: sorted_nth_mono)
    with pi pj gi show False by simp
  next
    case False
    with ne have "j < i" by simp
    then have "ns ! (j + 1) \<le> ns ! i" using s i by (simp add: sorted_nth_mono)
    with pi pj gj show False by simp
  qed
qed

lemma point_element_agrees:
  assumes s: "sorted ns" and int: "interiorLoad ns p" and i: "i + 1 < length ns"
    and len: "length fea = 4" and el: "\<forall>j \<in> set elems. j + 1 < length ns"
  shows "foldl (addEntry i) fea (pointEntries ns p elems)
           = (if i \<in> set elems then feaPoint (ns ! i) (ns ! (i + 1)) fea p else fea)"
  using el
proof (induction elems)
  case Nil
  then show ?case by simp
next
  case (Cons j rest)
  then have j: "j + 1 < length ns" and rest: "\<forall>k \<in> set rest. k + 1 < length ns" by simp_all
  note IH = Cons.IH[OF rest]
  show ?case
  proof (cases "PointLoad.position p \<ge> ns ! j \<and> PointLoad.position p \<le> ns ! (j + 1)")
    case False
    have out: "i = j \<Longrightarrow> feaPoint (ns ! i) (ns ! (i + 1)) fea p = fea"
      using feaPoint_outside[where p = p and ?x1.0 = "ns ! j" and ?x2.0 = "ns ! (j + 1)" and fea = fea]
        False by simp
    show ?thesis
      unfolding pointEntries_outside[OF False] IH using out by auto
  next
    case True
    have g: "min (PointLoad.position p - ns ! j) (ns ! (j + 1) - PointLoad.position p) > 1 / 10 ^ 5"
      by (rule interiorLoad_element[OF int j True])
    then have nl: "\<not> ns ! (j + 1) - ns ! j < 1 / 10 ^ 5" by simp
    from g have gg: "\<bar>ns ! (j + 1) - ns ! j\<bar> > 1 / 10 ^ 5
            \<and> min (PointLoad.position p - ns ! j) (ns ! (j + 1) - PointLoad.position p) > 1 / 10 ^ 5"
      by simp
    show ?thesis
    proof (cases "i = j")
      case same: True
      have m: "j \<in> set (j # rest)" by simp
      show ?thesis
        unfolding pointEntries_inside[OF True nl] same if_P[OF m] feaPoint_inside[OF True gg len]
        by (simp only: foldl_Cons foldl_Nil addEntry_def prod.case if_True HOL.simp_thms) simp
    next
      case other: False
      have "\<not> (PointLoad.position p \<ge> ns ! i \<and> PointLoad.position p \<le> ns ! (i + 1))"
        using interiorLoad_unique[OF s int i j _ True] other by blast
      then have "feaPoint (ns ! i) (ns ! (i + 1)) fea p = fea" by (rule feaPoint_outside)
      then show ?thesis
        unfolding pointEntries_inside[OF True nl] using other by (simp add: addEntry_def)
    qed
  qed
qed

lemma feaPoint_length:
  "length fea = 4 \<Longrightarrow> length (feaPoint x1 x2 fea p) = 4"
  by (simp add: feaPoint_def Let_def)

lemma distributed_agrees:
  assumes "length fea = 4" and "i < length ns - 1"
  shows "foldl (addEntry i) fea (distributedEntries ns d) = feaDistributed (ns ! i) (ns ! (i + 1)) fea d
       \<and> length (foldl (addEntry i) fea (distributedEntries ns d)) = 4"
proof -
  have "foldl (addEntry i) fea (distributedEntries ns d)
          = foldl (addEntry i) fea (distributedElementEntries ns d i)"
    unfolding distributedEntries_def
    by (rule foldl_addEntry_select[OF distributedElementEntries_index assms(2)])
  with distributed_element_agrees[OF assms(1), of i ns d] show ?thesis by simp
qed

lemma point_agrees:
  assumes "length fea = 4" and "i < length ns - 1" and "sorted ns" and "interiorLoad ns p"
  shows "foldl (addEntry i) fea (pointEntries ns p [0..<length ns - 1]) = feaPoint (ns ! i) (ns ! (i + 1)) fea p
       \<and> length (foldl (addEntry i) fea (pointEntries ns p [0..<length ns - 1])) = 4"
proof -
  from assms(2) have i: "i + 1 < length ns" by simp
  have el: "\<forall>j \<in> set [0..<length ns - 1]. j + 1 < length ns" by auto
  have m: "i \<in> set [0..<length ns - 1]" using assms(2) by simp
  have "foldl (addEntry i) fea (pointEntries ns p [0..<length ns - 1])
          = feaPoint (ns ! i) (ns ! (i + 1)) fea p"
    unfolding point_element_agrees[OF assms(3,4) i assms(1) el] if_P[OF m] ..
  then show ?thesis by (simp add: feaPoint_length[OF assms(1)])
qed

lemma recovery_matches_assembly_for_interior_loads:
  assumes int: "list_all (interiorLoad (nodes inp)) (pointLoads inp)"
    and i: "i < length (nodes inp) - 1"
  shows "subtractedForElement inp i = recomputeFEA inp i"
proof -
  define ns where "ns = nodes inp"
  define z :: "real list" where "z = [0, 0, 0, 0]"
  have s: "sorted ns" unfolding ns_def by (rule sorted_nodes)
  have i': "i < length ns - 1" using i by (simp add: ns_def)
  have z: "length z = 4" by (simp add: z_def)
  have d: "foldl (\<lambda>fea d. foldl (addEntry i) fea (distributedEntries ns d)) z (distributedLoads inp)
         = foldl (feaDistributed (ns ! i) (ns ! (i + 1))) z (distributedLoads inp)
       \<and> length (foldl (\<lambda>fea d. foldl (addEntry i) fea (distributedEntries ns d)) z
                   (distributedLoads inp)) = 4"
  proof (rule foldl_invariant_cong[where P = "\<lambda>f. length f = 4"])
    show "length z = 4" by fact
    show "foldl (addEntry i) a (distributedEntries ns x) = feaDistributed (ns ! i) (ns ! (i + 1)) a x
            \<and> length (foldl (addEntry i) a (distributedEntries ns x)) = 4"
      if "length a = 4" for a x
      by (rule distributed_agrees[OF that i'])
  qed
  define fd where "fd = foldl (\<lambda>fea d. foldl (addEntry i) fea (distributedEntries ns d)) z
                          (distributedLoads inp)"
  have fd: "fd = foldl (feaDistributed (ns ! i) (ns ! (i + 1))) z (distributedLoads inp)"
    "length fd = 4"
    unfolding fd_def using d by blast+
  have p: "foldl (\<lambda>fea p. foldl (addEntry i) fea (pointEntries ns p [0..<length ns - 1])) fd (pointLoads inp)
         = foldl (feaPoint (ns ! i) (ns ! (i + 1))) fd (pointLoads inp)
       \<and> length (foldl (\<lambda>fea p. foldl (addEntry i) fea (pointEntries ns p [0..<length ns - 1])) fd
                   (pointLoads inp)) = 4"
  proof (rule foldl_invariant_cong[where P = "\<lambda>f. length f = 4"])
    show "length fd = 4" by fact
    show "foldl (addEntry i) a (pointEntries ns x [0..<length ns - 1]) = feaPoint (ns ! i) (ns ! (i + 1)) a x
            \<and> length (foldl (addEntry i) a (pointEntries ns x [0..<length ns - 1])) = 4"
      if "length a = 4" and "x \<in> set (pointLoads inp)" for a x
    proof -
      from int that(2) have "interiorLoad ns x" by (simp add: list_all_iff ns_def)
      from point_agrees[OF that(1) i' s this] show ?thesis .
    qed
  qed
  have "subtractedForElement inp i
          = foldl (\<lambda>fea p. foldl (addEntry i) fea (pointEntries ns p [0..<length ns - 1])) fd (pointLoads inp)"
    by (simp add: subtractedForElement_def assemblyLog_def Let_def foldl_nested_concat fd_def ns_def z_def)
  also have "\<dots> = foldl (feaPoint (ns ! i) (ns ! (i + 1))) fd (pointLoads inp)"
    using p by blast
  also have "\<dots> = recomputeFEA inp i"
    by (simp add: recomputeFEA_def Let_def fd(1) ns_def z_def)
  finally show ?thesis .
qed


subsection \<open>The example inputs\<close>

lemma exampleBeam_fields:
  "width exampleBeam = 20" "height exampleBeam = 40" "fck exampleBeam = 25" "fyk exampleBeam = 500"
  "concreteCover exampleBeam = 2.5" "longitudinalBarDiameter exampleBeam = 10"
  "topBarDiameter exampleBeam = 8" "stirrupDiameter exampleBeam = 5" "span exampleBeam = 5"
  "supports exampleBeam = [\<lparr>Support.position = 0, stype = pin\<rparr>, \<lparr>Support.position = 5, stype = pin\<rparr>]"
  by (simp_all add: exampleBeam_def)

lemma tipLoadCantilever_fields:
  "nodes tipLoadCantilever = [0, 2]"
  "pointLoads tipLoadCantilever = [\<lparr>PointLoad.position = 2, magnitude = 10\<rparr>]"
  "distributedLoads tipLoadCantilever = []"
  by (simp_all add: nodes_def tipLoadCantilever_def exampleBeam_def)

lemmas column_examples =
  exampleColumn_def wideColumn_def deepColumn_def slenderColumn_def nearLimitColumn_def
  thinStirrupColumn_def slenderThinStirrupColumn_def

lemmas slenderness_defs =
  maxLambda_def lambdaX_def lambdaY_def le_def hx_def hy_def k_factor_def


section \<open>Properties\<close>

subsection \<open>C1: the limit 0.45 of Kmd\<close>

text \<open>
  Claim C1. In the flexural design of a beam (\<open>calculateReinforcement\<close>, run for the bottom
  face with \<open>M_d_pos\<close> and the bottom bar diameter and for the top face with \<open>M_d_neg\<close> and
  the top bar diameter), the effective depth is
  \<open>d = h - cover - stirrupDiameter - barDiameter / 2\<close> (in cm, the diameters being given in
  mm) and \<open>Kmd = Md / (b \<cdot> d\<^sup>2 \<cdot> fcd)\<close>.

  For a face with \<open>Kmd > 0.45\<close> no steel area is computed from the moment: \<open>as\<close> keeps its
  initial \<open>0\<close>, so the required area of the returned record is the minimum reinforcement
  \<open>As_min\<close> alone (or \<open>0\<close> where \<open>As_min\<close> is not positive); the message of the insufficient
  section is emitted for that face, the face is not valid and the whole result is not
  valid.

  For a face with \<open>Kmd \<le> 0.45\<close>, the value \<open>0.45\<close> included, the area
  \<open>As = Md / (\<beta>z \<cdot> d \<cdot> fyd)\<close> is computed and no such message is emitted for that face; the
  required area of the returned record is that area (\<open>0\<close> in its place when the moment is
  below 0.5 kN.m), raised to \<open>As_min\<close> where it is smaller.

  In both cases the number of bars of the record follows from the required area as the
  program computes it, the provided area is that number times the area of one bar, and the
  provided area is the fifth (bottom face) or sixth (top face) metric of the result.

  The divisor of \<open>Kmd\<close> is assumed not to be zero. The statement is about
  \<open>beamDesign inp sr\<close> for any solver result \<open>sr\<close>; \<open>calculateBeam inp\<close> is
  \<open>beamDesign inp (solveBeam inp)\<close> for a stable structure (\<open>calculateBeam_stable\<close>).
\<close>

theorem Kmd_limit_per_face:
  assumes div: "width inp * (d_face inp barDia)\<^sup>2 * fcd_kN_cm2 inp \<noteq> 0"
    and face: "(MomentD, barDia, face) = (M_d_pos sr, longitudinalBarDiameter inp, bottomFace)
             \<or> (MomentD, barDia, face) = (M_d_neg sr, topBarDia inp, topFace)"
  shows "d_face inp barDia
           = height inp - concreteCover inp - stirrupDiameter inp / 10 - (barDia / 10) / 2
       \<and> Kmd inp MomentD barDia
           = (MomentD * 100) / (width inp * (d_face inp barDia)\<^sup>2 * fcd_kN_cm2 inp)
       \<and> (Kmd inp MomentD barDia > 0.45 \<longrightarrow>
            fst (flexure inp MomentD barDia face) = 0
          \<and> as_req (fst (calculateReinforcement inp MomentD barDia face))
              = (if 0 < As_min inp then As_min inp else 0)
          \<and> SectionInsufficient face \<in> set (messages (beamDesign inp sr))
          \<and> \<not> valid (fst (calculateReinforcement inp MomentD barDia face))
          \<and> \<not> isValid (beamDesign inp sr))
       \<and> (Kmd inp MomentD barDia \<le> 0.45 \<longrightarrow>
            fst (flexure inp MomentD barDia face) =
              (MomentD * 100) /
                (((1 - 0.4 * (1.25 * (1 - sqrt (1 - 2 * Kmd inp MomentD barDia))))
                   * d_face inp barDia) * fyd_kN_cm2 inp)
          \<and> as_req (fst (calculateReinforcement inp MomentD barDia face))
              = (if (if MomentD < 0.5 then 0
                     else (MomentD * 100) /
                            (((1 - 0.4 * (1.25 * (1 - sqrt (1 - 2 * Kmd inp MomentD barDia))))
                               * d_face inp barDia) * fyd_kN_cm2 inp)) < As_min inp
                 then As_min inp
                 else (if MomentD < 0.5 then 0
                       else (MomentD * 100) /
                              (((1 - 0.4 * (1.25 * (1 - sqrt (1 - 2 * Kmd inp MomentD barDia))))
                                 * d_face inp barDia) * fyd_kN_cm2 inp)))
          \<and> SectionInsufficient face \<notin> set (messages (beamDesign inp sr)))
       \<and> count (fst (calculateReinforcement inp MomentD barDia face)) =
            (if MomentD < 0.5 then
               (if As_min inp > 2 * (pi * (barDia / 20)\<^sup>2)
                then (if \<lceil>As_min inp / (pi * (barDia / 20)\<^sup>2)\<rceil> < 2 then 2
                      else \<lceil>As_min inp / (pi * (barDia / 20)\<^sup>2)\<rceil>)
                else 2)
             else (if \<lceil>as_req (fst (calculateReinforcement inp MomentD barDia face))
                        / (pi * (barDia / 20)\<^sup>2)\<rceil> < 2 then 2
                   else \<lceil>as_req (fst (calculateReinforcement inp MomentD barDia face))
                        / (pi * (barDia / 20)\<^sup>2)\<rceil>))
       \<and> as_provided (fst (calculateReinforcement inp MomentD barDia face))
           = real_of_int (count (fst (calculateReinforcement inp MomentD barDia face)))
               * (pi * (barDia / 20)\<^sup>2)
       \<and> (face = bottomFace \<longrightarrow>
             metrics (beamDesign inp sr) ! 4
               = \<lparr>label = ''As Inf. Efetivo'',
                  val = toFixed 2 (as_provided (fst (calculateReinforcement inp MomentD barDia face)))\<rparr>)
       \<and> (face = topFace \<longrightarrow>
             metrics (beamDesign inp sr) ! 5
               = \<lparr>label = ''As Sup. Efetivo'',
                  val = toFixed 2 (as_provided (fst (calculateReinforcement inp MomentD barDia face)))\<rparr>)"
proof (intro conjI impI)
  show "d_face inp barDia
          = height inp - concreteCover inp - stirrupDiameter inp / 10 - (barDia / 10) / 2"
    by (simp add: d_face_def)
  show "Kmd inp MomentD barDia
          = (MomentD * 100) / (width inp * (d_face inp barDia)\<^sup>2 * fcd_kN_cm2 inp)"
    by (simp add: Kmd_def)
  show "count (fst (calculateReinforcement inp MomentD barDia face)) =
            (if MomentD < 0.5 then
               (if As_min inp > 2 * (pi * (barDia / 20)\<^sup>2)
                then (if \<lceil>As_min inp / (pi * (barDia / 20)\<^sup>2)\<rceil> < 2 then 2
                      else \<lceil>As_min inp / (pi * (barDia / 20)\<^sup>2)\<rceil>)
                else 2)
             else (if \<lceil>as_req (fst (calculateReinforcement inp MomentD barDia face))
                        / (pi * (barDia / 20)\<^sup>2)\<rceil> < 2 then 2
                   else \<lceil>as_req (fst (calculateReinforcement inp MomentD barDia face))
                        / (pi * (barDia / 20)\<^sup>2)\<rceil>))"
    by (rule calculateReinforcement_count)
  show "as_provided (fst (calculateReinforcement inp MomentD barDia face))
           = real_of_int (count (fst (calculateReinforcement inp MomentD barDia face)))
               * (pi * (barDia / 20)\<^sup>2)"
    by (simp add: calculateReinforcement_def Let_def)
  show "metrics (beamDesign inp sr) ! 4
               = \<lparr>label = ''As Inf. Efetivo'',
                  val = toFixed 2 (as_provided (fst (calculateReinforcement inp MomentD barDia face)))\<rparr>"
    if "face = bottomFace"
    using that face by (auto simp: beamDesign_def Let_def)
  show "metrics (beamDesign inp sr) ! 5
               = \<lparr>label = ''As Sup. Efetivo'',
                  val = toFixed 2 (as_provided (fst (calculateReinforcement inp MomentD barDia face)))\<rparr>"
    if "face = topFace"
    using that face by (auto simp: beamDesign_def Let_def)
next
  assume big: "Kmd inp MomentD barDia > 0.45"
  show z: "fst (flexure inp MomentD barDia face) = 0"
    using big by (simp add: flexure_def Let_def)
  show "as_req (fst (calculateReinforcement inp MomentD barDia face))
          = (if 0 < As_min inp then As_min inp else 0)"
    unfolding calculateReinforcement_as_req z by simp
  show "SectionInsufficient face \<in> set (messages (beamDesign inp sr))"
    using face calculateReinforcement_messages_lower[OF big, of face]
    by (auto simp: beamDesign_messages)
  show "\<not> valid (fst (calculateReinforcement inp MomentD barDia face))"
    by (rule calculateReinforcement_invalid[OF big])
  then show "\<not> isValid (beamDesign inp sr)"
    using face by (auto simp: beamDesign_isValid)
next
  assume small: "Kmd inp MomentD barDia \<le> 0.45"
  then have nb: "\<not> Kmd inp MomentD barDia > 0.45" by simp
  show f: "fst (flexure inp MomentD barDia face) =
          (MomentD * 100) /
            (((1 - 0.4 * (1.25 * (1 - sqrt (1 - 2 * Kmd inp MomentD barDia))))
               * d_face inp barDia) * fyd_kN_cm2 inp)"
    using nb by (simp add: flexure_def Let_def)
  show "as_req (fst (calculateReinforcement inp MomentD barDia face))
              = (if (if MomentD < 0.5 then 0
                     else (MomentD * 100) /
                            (((1 - 0.4 * (1.25 * (1 - sqrt (1 - 2 * Kmd inp MomentD barDia))))
                               * d_face inp barDia) * fyd_kN_cm2 inp)) < As_min inp
                 then As_min inp
                 else (if MomentD < 0.5 then 0
                       else (MomentD * 100) /
                              (((1 - 0.4 * (1.25 * (1 - sqrt (1 - 2 * Kmd inp MomentD barDia))))
                                 * d_face inp barDia) * fyd_kN_cm2 inp)))"
    unfolding calculateReinforcement_as_req f ..
  have own: "SectionInsufficient face \<notin> set (snd (calculateReinforcement inp MomentD barDia face))"
    by (rule calculateReinforcement_not_insufficient[OF nb])
  have other: "SectionInsufficient bottomFace \<notin> set (snd (calculateReinforcement inp m b topFace))"
              "SectionInsufficient topFace \<notin> set (snd (calculateReinforcement inp m b bottomFace))" for m b
    using calculateReinforcement_messages_upper[of inp m b topFace]
          calculateReinforcement_messages_upper[of inp m b bottomFace] by auto
  show "SectionInsufficient face \<notin> set (messages (beamDesign inp sr))"
    using face own other by (auto simp: beamDesign_messages)
qed

text \<open>
  The hypotheses of C1 hold for the bottom face of \<open>exampleBeam\<close>: with \<open>heavySolver\<close>
  the face is above the limit and its required area is the minimum 1.2 cm2, with
  \<open>lightSolver\<close> it is below the limit and its required area is the computed one (above
  4 cm2), with \<open>boundarySolver\<close> it is exactly on the limit.
\<close>

theorem Kmd_limit_per_face_witness:
  "width exampleBeam * (d_face exampleBeam 10)\<^sup>2 * fcd_kN_cm2 exampleBeam \<noteq> 0
   \<and> Kmd exampleBeam (M_d_pos heavySolver) 10 > 0.45
   \<and> as_req (fst (calculateReinforcement exampleBeam (M_d_pos heavySolver) 10 bottomFace)) = 1.2
   \<and> SectionInsufficient bottomFace \<in> set (messages (beamDesign exampleBeam heavySolver))
   \<and> \<not> isValid (beamDesign exampleBeam heavySolver)
   \<and> Kmd exampleBeam (M_d_pos lightSolver) 10 \<le> 0.45
   \<and> as_req (fst (calculateReinforcement exampleBeam (M_d_pos lightSolver) 10 bottomFace))
       = fst (flexure exampleBeam (M_d_pos lightSolver) 10 bottomFace)
   \<and> as_req (fst (calculateReinforcement exampleBeam (M_d_pos lightSolver) 10 bottomFace)) > 4
   \<and> SectionInsufficient bottomFace \<notin> set (messages (beamDesign exampleBeam lightSolver))
   \<and> Kmd exampleBeam (M_d_pos boundarySolver) 10 = 0.45
   \<and> SectionInsufficient bottomFace \<notin> set (messages (beamDesign exampleBeam boundarySolver))"
proof -
  have d: "width exampleBeam * (d_face exampleBeam 10)\<^sup>2 * fcd_kN_cm2 exampleBeam \<noteq> 0"
    by (simp add: exampleBeam_fields d_face_def fcd_kN_cm2_def GAMMA_C_def)
  have h: "Kmd exampleBeam (M_d_pos heavySolver) 10 > 0.45"
    by (simp add: Kmd_def exampleBeam_fields d_face_def fcd_kN_cm2_def GAMMA_C_def M_d_pos_def
          GAMMA_F_def heavySolver_def lightSolver_def power2_eq_square)
  have lk: "Kmd exampleBeam (M_d_pos lightSolver) 10 = 588 / 4263.2"
    by (simp add: Kmd_def exampleBeam_fields d_face_def fcd_kN_cm2_def GAMMA_C_def M_d_pos_def
          GAMMA_F_def lightSolver_def power2_eq_square)
  have l: "Kmd exampleBeam (M_d_pos lightSolver) 10 \<le> 0.45" by (simp add: lk)
  have b: "Kmd exampleBeam (M_d_pos boundarySolver) 10 = 0.45"
    by (simp add: Kmd_def exampleBeam_fields d_face_def fcd_kN_cm2_def GAMMA_C_def M_d_pos_def
          GAMMA_F_def boundarySolver_def lightSolver_def power2_eq_square)
  have f: "(M_d_pos sr, 10, bottomFace)
              = (M_d_pos sr, longitudinalBarDiameter exampleBeam, bottomFace)
          \<or> (M_d_pos sr, 10, bottomFace)
              = (M_d_neg sr, topBarDia exampleBeam, topFace)" for sr
    by (simp add: exampleBeam_fields)
  from b have b': "Kmd exampleBeam (M_d_pos boundarySolver) 10 \<le> 0.45" by simp
  note th = Kmd_limit_per_face[OF d f[of heavySolver]]
  note tl = Kmd_limit_per_face[OF d f[of lightSolver]]
  note tb = Kmd_limit_per_face[OF d f[of boundarySolver]]
  have amin: "As_min exampleBeam = 1.2"
    by (simp add: As_min_def getRhoMin_def exampleBeam_fields)
  from th h have "as_req (fst (calculateReinforcement exampleBeam (M_d_pos heavySolver) 10 bottomFace))
       = (if 0 < As_min exampleBeam then As_min exampleBeam else 0)" by blast
  then have rh: "as_req (fst (calculateReinforcement exampleBeam (M_d_pos heavySolver) 10 bottomFace)) = 1.2"
    by (simp add: amin)
  define s where "s = sqrt (1 - 2 * Kmd exampleBeam (M_d_pos lightSolver) 10)"
  have s01: "0 \<le> s" "s \<le> 1" by (simp_all add: s_def lk)
  have md: "M_d_pos lightSolver = 65.625"
    by (simp add: M_d_pos_def GAMMA_F_def lightSolver_def)
  have fl: "fst (flexure exampleBeam (M_d_pos lightSolver) 10 bottomFace)
          = 6562.5 / (((1 - 0.4 * (1.25 * (1 - s))) * 36.5) * (1000 / 23))"
    using tl l unfolding s_def[symmetric]
    by (simp add: md d_face_def fyd_kN_cm2_def GAMMA_S_def exampleBeam_fields)
  have pos: "0 < ((1 - 0.4 * (1.25 * (1 - s))) * 36.5) * (1000 / 23)" using s01 by simp
  have "4 * (((1 - 0.4 * (1.25 * (1 - s))) * 36.5) * (1000 / 23)) < 6562.5" using s01 by (simp add: field_simps)
  then have big: "4 < 6562.5 / (((1 - 0.4 * (1.25 * (1 - s))) * 36.5) * (1000 / 23))"
    by (simp only: pos_less_divide_eq[OF pos])
  from tl l have "as_req (fst (calculateReinforcement exampleBeam (M_d_pos lightSolver) 10 bottomFace))
     = (if (if M_d_pos lightSolver < 0.5 then 0 else fst (flexure exampleBeam (M_d_pos lightSolver) 10 bottomFace))
            < As_min exampleBeam
        then As_min exampleBeam
        else (if M_d_pos lightSolver < 0.5 then 0 else fst (flexure exampleBeam (M_d_pos lightSolver) 10 bottomFace)))"
    by metis
  then have rl: "as_req (fst (calculateReinforcement exampleBeam (M_d_pos lightSolver) 10 bottomFace))
       = fst (flexure exampleBeam (M_d_pos lightSolver) 10 bottomFace)"
    using big unfolding fl by (simp add: md amin)
  have rl4: "as_req (fst (calculateReinforcement exampleBeam (M_d_pos lightSolver) 10 bottomFace)) > 4"
    unfolding rl fl using big .
  show ?thesis
    using d h l b b' th tl tb rh rl rl4 by blast
qed


subsection \<open>C2: the stability check\<close>

text \<open>
  Claim C2. If the list of supports of the input of \<open>calculateBeam\<close> has fewer than two
  entries and is not exactly one fixed support, the result is the constant record of the
  unstable structure: not valid, with the instability message, and with the three diagram
  sequences (shear, moment, deflection) empty; nothing of the input is read beyond the
  supports, so nothing is assembled, solved or designed. If there are at least two supports,
  or exactly one fixed support, that branch is not taken: the result is the design on the
  solver's result, it does not carry the instability message and is not that record.
\<close>

theorem calculateBeam_stability_gate:
  "(length (supports inp) < 2
      \<and> \<not> (length (supports inp) = 1 \<and> stype (supports inp ! 0) = fixed)
    \<longrightarrow> calculateBeam inp = unstableResult
        \<and> isValid (calculateBeam inp) = False
        \<and> StructureUnstable \<in> set (messages (calculateBeam inp))
        \<and> chartDataShear (calculateBeam inp) = Some []
        \<and> chartDataMoment (calculateBeam inp) = Some []
        \<and> chartDataDeflection (calculateBeam inp) = Some [])
   \<and> (length (supports inp) \<ge> 2
      \<or> (length (supports inp) = 1 \<and> stype (supports inp ! 0) = fixed)
    \<longrightarrow> calculateBeam inp = beamDesign inp (solveBeam inp)
        \<and> StructureUnstable \<notin> set (messages (calculateBeam inp))
        \<and> calculateBeam inp \<noteq> unstableResult)"
proof (intro conjI impI)
  assume u: "length (supports inp) < 2
      \<and> \<not> (length (supports inp) = 1 \<and> stype (supports inp ! 0) = fixed)"
  then have ns: "\<not> isStable inp" by (auto simp: isStable_def isCantilever_def)
  then show r: "calculateBeam inp = unstableResult" by (simp add: calculateBeam_def)
  show "isValid (calculateBeam inp) = False" by (simp add: r unstableResult_def)
  show "StructureUnstable \<in> set (messages (calculateBeam inp))" by (simp add: r unstableResult_def)
  show "chartDataShear (calculateBeam inp) = Some []" by (simp add: r unstableResult_def)
  show "chartDataMoment (calculateBeam inp) = Some []" by (simp add: r unstableResult_def)
  show "chartDataDeflection (calculateBeam inp) = Some []" by (simp add: r unstableResult_def)
next
  assume s: "length (supports inp) \<ge> 2
      \<or> (length (supports inp) = 1 \<and> stype (supports inp ! 0) = fixed)"
  then have st: "isStable inp" by (auto simp: isStable_def isCantilever_def)
  then show r: "calculateBeam inp = beamDesign inp (solveBeam inp)" by (simp add: calculateBeam_def)
  show n: "StructureUnstable \<notin> set (messages (calculateBeam inp))"
    by (simp only: r beamDesign_not_unstable not_False_eq_True)
  show "calculateBeam inp \<noteq> unstableResult"
  proof
    assume "calculateBeam inp = unstableResult"
    then have "StructureUnstable \<in> set (messages (calculateBeam inp))" by (simp add: unstableResult_def)
    with n show False by simp
  qed
qed

text \<open>
  Both hypotheses of C2 are met: by \<open>onePinBeam\<close> (a single pin) and by \<open>exampleBeam\<close>
  (two pins).
\<close>

theorem calculateBeam_stability_gate_witness:
  "(length (supports onePinBeam) < 2
      \<and> \<not> (length (supports onePinBeam) = 1 \<and> stype (supports onePinBeam ! 0) = fixed))
   \<and> calculateBeam onePinBeam = unstableResult
   \<and> chartDataShear (calculateBeam onePinBeam) = Some []
   \<and> (length (supports exampleBeam) \<ge> 2
        \<or> (length (supports exampleBeam) = 1 \<and> stype (supports exampleBeam ! 0) = fixed))
   \<and> calculateBeam exampleBeam = beamDesign exampleBeam (solveBeam exampleBeam)
   \<and> StructureUnstable \<notin> set (messages (calculateBeam exampleBeam))"
proof -
  have u: "length (supports onePinBeam) < 2
      \<and> \<not> (length (supports onePinBeam) = 1 \<and> stype (supports onePinBeam ! 0) = fixed)"
    by (simp add: onePinBeam_def exampleBeam_def)
  have s: "length (supports exampleBeam) \<ge> 2
        \<or> (length (supports exampleBeam) = 1 \<and> stype (supports exampleBeam ! 0) = fixed)"
    by (simp add: exampleBeam_def)
  show ?thesis
    using u s calculateBeam_stability_gate[of onePinBeam] calculateBeam_stability_gate[of exampleBeam]
    by blast
qed


subsection \<open>C3: second-order moments only above the slenderness 35\<close>

text \<open>
  Claim C3. In \<open>calculateColumn\<close>, for each axis on its own: when the slenderness of the
  axis is at most \<open>35\<close>, the total design moment of the axis is the minimum first-order
  moment \<open>M1_min = Nd \<cdot> e_min\<close> exactly; the term \<open>Nd \<cdot> e2\<close> is added only when the slenderness
  exceeds \<open>35\<close>. For a column that is not rejected for slenderness these moments are the second
  and third metric of the result. The sides are assumed not to be zero, so that the
  slenderness ratios are what the program computes.
\<close>

theorem second_order_only_above_lambda_1:
  assumes "widthX inp \<noteq> 0" and "widthY inp \<noteq> 0"
  shows "(lambdaX inp \<le> 35 \<longrightarrow> M_tot_x inp = Nd inp * e_min_x inp)
       \<and> (lambdaY inp \<le> 35 \<longrightarrow> M_tot_y inp = Nd inp * e_min_y inp)
       \<and> (lambdaX inp > 35 \<longrightarrow>
            M_tot_x inp = Nd inp * e_min_x inp
              + Nd inp * e2 (calcSecondOrder inp (lambdaX inp) (hx inp) (M1d_min_x inp)))
       \<and> (lambdaY inp > 35 \<longrightarrow>
            M_tot_y inp = Nd inp * e_min_y inp
              + Nd inp * e2 (calcSecondOrder inp (lambdaY inp) (hy inp) (M1d_min_y inp)))
       \<and> (maxLambda inp \<le> 140 \<longrightarrow>
            metrics (calculateColumn inp) ! 1
              = \<lparr>label = ''Momento Total X'', val = toFixed 2 (M_tot_x inp)\<rparr>
          \<and> metrics (calculateColumn inp) ! 2
              = \<lparr>label = ''Momento Total Y'', val = toFixed 2 (M_tot_y inp)\<rparr>)"
proof (intro conjI impI)
  show "M_tot_x inp = Nd inp * e_min_x inp" if "lambdaX inp \<le> 35"
    using that by (simp add: M_tot_x_def lambda_1_def M1d_min_x_def)
  show "M_tot_y inp = Nd inp * e_min_y inp" if "lambdaY inp \<le> 35"
    using that by (simp add: M_tot_y_def lambda_1_def M1d_min_y_def)
  show "M_tot_x inp = Nd inp * e_min_x inp
          + Nd inp * e2 (calcSecondOrder inp (lambdaX inp) (hx inp) (M1d_min_x inp))"
    if "lambdaX inp > 35"
    using that by (simp add: M_tot_x_def lambda_1_def M1d_min_x_def calcSecondOrder_def Let_def)
  show "M_tot_y inp = Nd inp * e_min_y inp
          + Nd inp * e2 (calcSecondOrder inp (lambdaY inp) (hy inp) (M1d_min_y inp))"
    if "lambdaY inp > 35"
    using that by (simp add: M_tot_y_def lambda_1_def M1d_min_y_def calcSecondOrder_def Let_def)
  show "metrics (calculateColumn inp) ! 1
          = \<lparr>label = ''Momento Total X'', val = toFixed 2 (M_tot_x inp)\<rparr>" if "maxLambda inp \<le> 140"
    using that calculateColumn_not_slender[of inp] by (simp add: not_less)
  show "metrics (calculateColumn inp) ! 2
          = \<lparr>label = ''Momento Total Y'', val = toFixed 2 (M_tot_y inp)\<rparr>" if "maxLambda inp \<le> 140"
    using that calculateColumn_not_slender[of inp] by (simp add: not_less)
qed

text \<open>
  The hypotheses of C3 hold for \<open>wideColumn\<close> (40 x 20: stocky about the first axis, slender
  about the second) and, with the axes exchanged, for \<open>deepColumn\<close>.
\<close>

theorem second_order_only_above_lambda_1_witness:
  "widthX wideColumn \<noteq> 0 \<and> widthY wideColumn \<noteq> 0
   \<and> lambdaX wideColumn \<le> 35 \<and> M_tot_x wideColumn = Nd wideColumn * e_min_x wideColumn
   \<and> lambdaY wideColumn > 35
   \<and> M_tot_y wideColumn = Nd wideColumn * e_min_y wideColumn
        + Nd wideColumn * e2 (calcSecondOrder wideColumn (lambdaY wideColumn) (hy wideColumn) (M1d_min_y wideColumn))
   \<and> maxLambda wideColumn \<le> 140
   \<and> metrics (calculateColumn wideColumn) ! 1
        = \<lparr>label = ''Momento Total X'', val = toFixed 2 (M_tot_x wideColumn)\<rparr>
   \<and> widthX deepColumn \<noteq> 0 \<and> widthY deepColumn \<noteq> 0
   \<and> lambdaY deepColumn \<le> 35 \<and> M_tot_y deepColumn = Nd deepColumn * e_min_y deepColumn
   \<and> lambdaX deepColumn > 35
   \<and> M_tot_x deepColumn = Nd deepColumn * e_min_x deepColumn
        + Nd deepColumn * e2 (calcSecondOrder deepColumn (lambdaX deepColumn) (hx deepColumn) (M1d_min_x deepColumn))"
proof -
  have w: "widthX wideColumn \<noteq> 0" "widthY wideColumn \<noteq> 0" by (simp_all add: column_examples)
  have d: "widthX deepColumn \<noteq> 0" "widthY deepColumn \<noteq> 0" by (simp_all add: column_examples)
  have lw: "lambdaX wideColumn \<le> 35" "lambdaY wideColumn > 35" "maxLambda wideColumn \<le> 140"
    by (simp_all add: slenderness_defs column_examples)
  have ld: "lambdaY deepColumn \<le> 35" "lambdaX deepColumn > 35"
    by (simp_all add: slenderness_defs column_examples)
  show ?thesis
    using w d lw ld second_order_only_above_lambda_1[OF w] second_order_only_above_lambda_1[OF d]
    by blast
qed


subsection \<open>C4: the slenderness ratio and the rejection above 140\<close>

text \<open>
  Claim C4 says that the slenderness of a side is \<open>(k \<cdot> height \<cdot> \<surd>12) / side\<close> and that every
  input whose larger slenderness exceeds \<open>140\<close> is rejected. The program multiplies by the
  constant \<open>3.46\<close>, which is smaller than \<open>\<surd>12\<close>. For the 20 x 20 column of height 8.09 m with
  pinned ends the program finds \<open>139.957\<close> on both axes and designs the column, while the
  ratio with \<open>\<surd>12\<close> is above \<open>140\<close>.
\<close>

theorem slenderness_sqrt12_counterexample:
  "lambdaX nearLimitColumn = 139.957 \<and> lambdaY nearLimitColumn = 139.957
   \<and> max ((k_factor (supportCondition nearLimitColumn) * col_height nearLimitColumn * sqrt 12)
             / (widthX nearLimitColumn / 100))
          ((k_factor (supportCondition nearLimitColumn) * col_height nearLimitColumn * sqrt 12)
             / (widthY nearLimitColumn / 100)) > 140
   \<and> metrics (calculateColumn nearLimitColumn) \<noteq> []"
proof -
  have l: "lambdaX nearLimitColumn = 139.957" "lambdaY nearLimitColumn = 139.957"
    by (simp_all add: slenderness_defs column_examples)
  then have ns: "\<not> maxLambda nearLimitColumn > 140" by (simp add: maxLambda_def)
  have "(2800 / 809)\<^sup>2 < (12::real)" by (simp add: power2_eq_square)
  then have "2800 / 809 < sqrt 12" by (rule real_less_rsqrt)
  then have s: "(k_factor (supportCondition nearLimitColumn) * col_height nearLimitColumn * sqrt 12)
             / (widthX nearLimitColumn / 100) > 140"
    by (simp add: k_factor_def column_examples)
  have s': "(k_factor (supportCondition nearLimitColumn) * col_height nearLimitColumn * sqrt 12)
             / (widthY nearLimitColumn / 100) > 140"
    using s by (simp add: column_examples)
  have m: "metrics (calculateColumn nearLimitColumn) \<noteq> []"
    using calculateColumn_not_slender[OF ns] by auto
  show ?thesis using l s s' m by (simp only: max_def) simp
qed

text \<open>
  Claim C4 as amended. The slenderness of each side is \<open>(k \<cdot> height \<cdot> 3.46) / side\<close>, with
  \<open>k\<close> the effective-length factor of the end-restraint case and the side in metres; for
  every input whose larger slenderness, so computed, exceeds \<open>140\<close> the result is not valid,
  its only message is the one of the excessive slenderness and its metrics are empty,
  whatever the axial load \<open>N\<close>.
\<close>

theorem slenderness_rejection:
  "lambdaX inp = (k_factor (supportCondition inp) * col_height inp * 3.46) / (widthX inp / 100)
   \<and> lambdaY inp = (k_factor (supportCondition inp) * col_height inp * 3.46) / (widthY inp / 100)
   \<and> (max (lambdaX inp) (lambdaY inp) > 140 \<longrightarrow>
        isValid (calculateColumn (inp\<lparr>axialLoad := N\<rparr>)) = False
      \<and> messages (calculateColumn (inp\<lparr>axialLoad := N\<rparr>))
          = [ExcessiveSlenderness (toFixed 1 (max (lambdaX inp) (lambdaY inp)))]
      \<and> metrics (calculateColumn (inp\<lparr>axialLoad := N\<rparr>)) = [])"
proof -
  have l: "maxLambda (inp\<lparr>axialLoad := N\<rparr>) = max (lambdaX inp) (lambdaY inp)"
    by (simp add: maxLambda_def lambdaX_def lambdaY_def le_def hx_def hy_def)
  show ?thesis
    by (simp add: lambdaX_def lambdaY_def le_def hx_def hy_def
          calculateColumn_slender[of "inp\<lparr>axialLoad := N\<rparr>", unfolded l] slenderResult_def l)
qed

text \<open>
  The hypothesis of the amended C4 holds for \<open>slenderColumn\<close> (height 10 m, slenderness
  173).
\<close>

theorem slenderness_rejection_witness:
  "max (lambdaX slenderColumn) (lambdaY slenderColumn) > 140
   \<and> lambdaX slenderColumn = 173
   \<and> isValid (calculateColumn (slenderColumn\<lparr>axialLoad := 1\<rparr>)) = False
   \<and> messages (calculateColumn (slenderColumn\<lparr>axialLoad := 1\<rparr>)) = [ExcessiveSlenderness 173]
   \<and> metrics (calculateColumn (slenderColumn\<lparr>axialLoad := 1\<rparr>)) = []"
proof -
  have l: "lambdaX slenderColumn = 173" "lambdaY slenderColumn = 173"
    by (simp_all add: slenderness_defs column_examples)
  then have g: "max (lambdaX slenderColumn) (lambdaY slenderColumn) > 140" by simp
  have tf: "toFixed 1 (max (lambdaX slenderColumn) (lambdaY slenderColumn)) = 173"
    by (simp add: l toFixed_def)
  note t = slenderness_rejection[where inp = slenderColumn and N = 1, unfolded tf]
  show ?thesis using g l(1) t by blast
qed


subsection \<open>C5: the fixed-end actions of the recovery against those of the assembly\<close>

text \<open>
  Claim C5 says that the fixed-end actions recomputed for an element in the recovery of
  the member forces are, component for component, those subtracted from \<open>F\<close> for that element
  in the assembly, also for a load on an end node of the element. \<open>tipLoadCantilever\<close> has one
  element (nodes \<open>0\<close> and \<open>2\<close>) and one load of 10 kN on its end node. The assembly makes
  one subtraction, of \<open>(0, 0, 10, 0)\<close> for that element, which leaves \<open>F = [0, 0, -10, 0]\<close>; the
  actions recomputed are \<open>(0, 0, 0, 0)\<close>, because the recovery requires \<open>min a b > 1e-5\<close> and
  the assembly does not.
\<close>

theorem recomputed_fea_differs_from_assembled:
  "length (nodes tipLoadCantilever) - 1 = 1
   \<and> assemblyLog tipLoadCantilever = [(0, 0, 0, 10, 0)]
   \<and> subtractedForElement tipLoadCantilever 0 = [0, 0, 10, 0]
   \<and> loadVector tipLoadCantilever = [0, 0, - 10, 0]
   \<and> recomputeFEA tipLoadCantilever 0 = [0, 0, 0, 0]"
proof -
  have l: "assemblyLog tipLoadCantilever = [(0, 0, 0, 10, 0)]"
    by (simp add: assemblyLog_def tipLoadCantilever_fields Let_def)
  have s: "subtractedForElement tipLoadCantilever 0 = [0, 0, 10, 0]"
    by (simp add: subtractedForElement_def l addEntry_def)
  have a: "loadVector tipLoadCantilever = [0, 0, - 10, 0]"
    by (simp add: loadVector_def tipLoadCantilever_fields createVector_def subtractFEA_def Let_def
          eval_nat_numeral)
  have b: "recomputeFEA tipLoadCantilever 0 = [0, 0, 0, 0]"
    by (simp add: recomputeFEA_def tipLoadCantilever_fields feaPoint_def Let_def)
  show ?thesis using l s a b by (simp add: tipLoadCantilever_fields)
qed

text \<open>
  Away from the nodes the two computations agree (\<open>recovery_matches_assembly_for_interior_loads\<close>):
  for every beam whose point loads are all interior, and every element, the sum of what
  the assembly subtracted for the element is what the recovery recomputes. \<open>midLoadBeam\<close>,
  with a load at midspan, is such a beam.
\<close>

lemma recovery_matches_assembly_example:
  "list_all (interiorLoad (nodes midLoadBeam)) (pointLoads midLoadBeam)
   \<and> 0 < length (nodes midLoadBeam) - 1
   \<and> subtractedForElement midLoadBeam 0 = recomputeFEA midLoadBeam 0"
proof -
  have n: "nodes midLoadBeam = [0, 5]"
    by (simp add: nodes_def midLoadBeam_def exampleBeam_def)
  have p: "pointLoads midLoadBeam = [\<lparr>PointLoad.position = 2.5, magnitude = 20\<rparr>]"
    by (simp add: midLoadBeam_def)
  have i: "list_all (interiorLoad (nodes midLoadBeam)) (pointLoads midLoadBeam)"
    by (simp add: n p interiorLoad_def)
  have e: "0 < length (nodes midLoadBeam) - 1" by (simp add: n)
  from recovery_matches_assembly_for_interior_loads[OF i e] i e show ?thesis by blast
qed


subsection \<open>C6: a point load on a node in the assembly of the load vector\<close>

text \<open>
  Claim C6 says that a point load whose position is exactly a node position contributes
  nothing to \<open>F\<close> in the assembly loop. The loop skips an element only when its length is
  below \<open>1e-5\<close>; a load on a node of an element of ordinary length is taken with \<open>b = 0\<close>
  (or \<open>a = 0\<close>), for which the formulas give \<open>R2 = P\<close> (or \<open>R1 = P\<close>). In
  \<open>tipLoadCantilever\<close> the load of 10 kN lies on the node of index 1 and \<open>F\<close> has \<open>-10\<close> at the
  vertical degree of freedom of that node; without the load \<open>F\<close> is zero.
\<close>

theorem nodal_load_enters_load_vector:
  "nodes tipLoadCantilever = [0, 2]
   \<and> map PointLoad.position (pointLoads tipLoadCantilever) = [nodes tipLoadCantilever ! 1]
   \<and> loadVector tipLoadCantilever = [0, 0, - 10, 0]
   \<and> loadVector (tipLoadCantilever\<lparr>pointLoads := []\<rparr>) = [0, 0, 0, 0]"
proof -
  have n: "nodes (tipLoadCantilever\<lparr>pointLoads := []\<rparr>) = [0, 2]"
    by (simp add: nodes_def tipLoadCantilever_def exampleBeam_def)
  have e: "distributedLoads (tipLoadCantilever\<lparr>pointLoads := []\<rparr>) = []"
    by (simp add: tipLoadCantilever_def exampleBeam_def)
  have a: "loadVector tipLoadCantilever = [0, 0, - 10, 0]"
    by (simp add: loadVector_def tipLoadCantilever_fields createVector_def subtractFEA_def Let_def
          eval_nat_numeral)
  have b: "loadVector (tipLoadCantilever\<lparr>pointLoads := []\<rparr>) = [0, 0, 0, 0]"
    by (simp add: loadVector_def n e createVector_def Let_def eval_nat_numeral)
  show ?thesis using a b by (simp add: tipLoadCantilever_fields)
qed


subsection \<open>C8: the deflection limit is a warning\<close>

text \<open>
  Claim C8. In \<open>calculateBeam\<close> the allowable deflection is \<open>span / 250\<close>, or \<open>span / 125\<close> for a
  cantilever (exactly one support, and it is fixed); the program holds it in cm, the span
  being in m. The warning is in the messages exactly when the absolute peak deflection
  exceeds this limit, and the flag \<open>isValid\<close> does not depend on the peak deflection:
  replacing it by any \<open>m\<close> leaves the flag as it is. The statement is about \<open>beamDesign inp sr\<close>
  for any solver result \<open>sr\<close>, which is \<open>calculateBeam inp\<close> for \<open>sr = solveBeam inp\<close> when the
  structure is stable.
\<close>

theorem deflection_limit_warns_only:
  "allowableDeflection inp / 100 = span inp / (if isCantilever inp then 125 else 250)
   \<and> (isCantilever inp \<longleftrightarrow> length (supports inp) = 1 \<and> stype (supports inp ! 0) = fixed)
   \<and> (DeflectionExceeded (toFixed 2 \<bar>maxDeflection sr\<bar>) (limitDivisor inp)
          (toFixed 2 (allowableDeflection inp)) \<in> set (messages (beamDesign inp sr))
        \<longleftrightarrow> \<bar>maxDeflection sr\<bar> > allowableDeflection inp)
   \<and> isValid (beamDesign inp (sr\<lparr>maxDeflection := m\<rparr>)) = isValid (beamDesign inp sr)
   \<and> (isStable inp \<longrightarrow> calculateBeam inp = beamDesign inp (solveBeam inp))"
proof (intro conjI impI)
  show "allowableDeflection inp / 100 = span inp / (if isCantilever inp then 125 else 250)"
    by (simp add: allowableDeflection_def limitDivisor_def)
  show "isCantilever inp \<longleftrightarrow> length (supports inp) = 1 \<and> stype (supports inp ! 0) = fixed"
    by (simp add: isCantilever_def)
  have nb: "DeflectionExceeded a n l \<notin> set (snd (calculateReinforcement inp md bd face))" for a n l md bd face
    using calculateReinforcement_messages_upper[of inp md bd face] by auto
  show "DeflectionExceeded (toFixed 2 \<bar>maxDeflection sr\<bar>) (limitDivisor inp)
          (toFixed 2 (allowableDeflection inp)) \<in> set (messages (beamDesign inp sr))
        \<longleftrightarrow> \<bar>maxDeflection sr\<bar> > allowableDeflection inp"
    by (simp add: beamDesign_messages nb)
  show "isValid (beamDesign inp (sr\<lparr>maxDeflection := m\<rparr>)) = isValid (beamDesign inp sr)"
    by (simp add: beamDesign_isValid M_d_pos_def M_d_neg_def)
  show "calculateBeam inp = beamDesign inp (solveBeam inp)" if "isStable inp"
    using that by (rule calculateBeam_stable)
qed

text \<open>
  The hypothesis of C8 holds for \<open>exampleBeam\<close>; with the deflection of 3 cm of
  \<open>heavySolver\<close> against the limit of 2 cm the warning is there, and the flag is the one
  of a beam without deflection.
\<close>

theorem deflection_limit_warns_only_witness:
  "isStable exampleBeam
   \<and> calculateBeam exampleBeam = beamDesign exampleBeam (solveBeam exampleBeam)
   \<and> allowableDeflection exampleBeam = 2
   \<and> \<bar>maxDeflection heavySolver\<bar> > allowableDeflection exampleBeam
   \<and> DeflectionExceeded 3 250 2 \<in> set (messages (beamDesign exampleBeam heavySolver))
   \<and> isValid (beamDesign exampleBeam (heavySolver\<lparr>maxDeflection := 0\<rparr>))
       = isValid (beamDesign exampleBeam heavySolver)"
proof -
  have st: "isStable exampleBeam" by (simp add: isStable_def exampleBeam_fields)
  have nc: "\<not> isCantilever exampleBeam" by (simp add: isCantilever_def exampleBeam_fields)
  have al: "allowableDeflection exampleBeam = 2"
    by (simp add: allowableDeflection_def limitDivisor_def nc exampleBeam_fields)
  have ld: "limitDivisor exampleBeam = 250" by (simp add: limitDivisor_def nc)
  have md: "maxDeflection heavySolver = - 3" by (simp add: heavySolver_def)
  have tf: "toFixed 2 \<bar>maxDeflection heavySolver\<bar> = 3" "toFixed 2 (allowableDeflection exampleBeam) = 2"
    by (simp_all add: al md toFixed_def)
  have ex: "\<bar>maxDeflection heavySolver\<bar> > allowableDeflection exampleBeam" by (simp add: al md)
  note t = deflection_limit_warns_only[where inp = exampleBeam and sr = heavySolver and m = 0]
  from t ex have "DeflectionExceeded (toFixed 2 \<bar>maxDeflection heavySolver\<bar>) (limitDivisor exampleBeam)
          (toFixed 2 (allowableDeflection exampleBeam)) \<in> set (messages (beamDesign exampleBeam heavySolver))"
    by blast
  then have m: "DeflectionExceeded 3 250 2 \<in> set (messages (beamDesign exampleBeam heavySolver))"
    by (simp only: tf ld)
  from t st have c: "calculateBeam exampleBeam = beamDesign exampleBeam (solveBeam exampleBeam)"
    by blast
  from t have v: "isValid (beamDesign exampleBeam (heavySolver\<lparr>maxDeflection := 0\<rparr>))
       = isValid (beamDesign exampleBeam heavySolver)" by blast
  show ?thesis using st c al ex m v by blast
qed


subsection \<open>C9: the stirrup rules of a column\<close>

text \<open>
  Claim C9 says that for every input of \<open>calculateColumn\<close> that violates the rule of the
  stirrup diameter or of the stirrup spacing a warning is appended. A column rejected for
  its slenderness returns before these checks: \<open>slenderThinStirrupColumn\<close> violates both
  rules and its only message is the one of the slenderness.
\<close>

theorem stirrup_warning_counterexample:
  "col_stirrupDiameter slenderThinStirrupColumn
     < max 5 (col_longitudinalBarDiameter slenderThinStirrupColumn / 4)
   \<and> col_stirrupSpacing slenderThinStirrupColumn
     > min 20 (min (min (widthX slenderThinStirrupColumn) (widthY slenderThinStirrupColumn))
                 (12 * (col_longitudinalBarDiameter slenderThinStirrupColumn / 10)))
   \<and> messages (calculateColumn slenderThinStirrupColumn) = [ExcessiveSlenderness 173]"
proof -
  have l: "maxLambda slenderThinStirrupColumn = 173"
    by (simp add: slenderness_defs column_examples)
  then have "calculateColumn slenderThinStirrupColumn = slenderResult slenderThinStirrupColumn"
    by (simp add: calculateColumn_slender)
  then have "messages (calculateColumn slenderThinStirrupColumn) = [ExcessiveSlenderness 173]"
    by (simp add: slenderResult_def l toFixed_def)
  then show ?thesis by (simp add: column_examples)
qed

text \<open>
  Claim C9 as amended. For every input of \<open>calculateColumn\<close> that is not rejected for
  slenderness (larger slenderness at most \<open>140\<close>, the sides not being zero), the warning of the stirrup diameter is in
  the messages exactly when the diameter is below \<open>max(5 mm, longitudinalBarDiameter / 4)\<close>,
  and the warning of the spacing exactly when the spacing is above
  \<open>min(20 cm, smaller side, 12 longitudinal bar diameters)\<close>. For every input the flag
  \<open>isValid\<close> is the same whatever the stirrup diameter \<open>sd\<close> and spacing \<open>ss\<close>.
\<close>

theorem stirrup_rules_warn_only:
  "(widthX inp \<noteq> 0 \<and> widthY inp \<noteq> 0 \<and> maxLambda inp \<le> 140 \<longrightarrow>
      (StirrupDiameterTooSmall (col_stirrupDiameter inp) (col_longitudinalBarDiameter inp)
           (toFixed 1 (minStirrupDiaRule inp)) \<in> set (messages (calculateColumn inp))
         \<longleftrightarrow> col_stirrupDiameter inp < max 5 (col_longitudinalBarDiameter inp / 4))
    \<and> (StirrupSpacingTooLarge (col_stirrupSpacing inp) (toFixed 1 (maxSpacingRule inp))
           \<in> set (messages (calculateColumn inp))
         \<longleftrightarrow> col_stirrupSpacing inp
               > min 20 (min (min (widthX inp) (widthY inp)) (12 * (col_longitudinalBarDiameter inp / 10)))))
   \<and> isValid (calculateColumn (inp\<lparr>col_stirrupDiameter := sd, col_stirrupSpacing := ss\<rparr>))
       = isValid (calculateColumn inp)"
proof (intro conjI impI)
  assume "widthX inp \<noteq> 0 \<and> widthY inp \<noteq> 0 \<and> maxLambda inp \<le> 140"
  then have ns: "\<not> maxLambda inp > 140" by simp
  show "StirrupDiameterTooSmall (col_stirrupDiameter inp) (col_longitudinalBarDiameter inp)
           (toFixed 1 (minStirrupDiaRule inp)) \<in> set (messages (calculateColumn inp))
         \<longleftrightarrow> col_stirrupDiameter inp < max 5 (col_longitudinalBarDiameter inp / 4)"
    by (simp add: calculateColumn_messages[OF ns] minStirrupDiaRule_def)
  show "StirrupSpacingTooLarge (col_stirrupSpacing inp) (toFixed 1 (maxSpacingRule inp))
           \<in> set (messages (calculateColumn inp))
         \<longleftrightarrow> col_stirrupSpacing inp
               > min 20 (min (min (widthX inp) (widthY inp)) (12 * (col_longitudinalBarDiameter inp / 10)))"
    by (simp add: calculateColumn_messages[OF ns] maxSpacingRule_def Let_def)
next
  show "isValid (calculateColumn (inp\<lparr>col_stirrupDiameter := sd, col_stirrupSpacing := ss\<rparr>))
       = isValid (calculateColumn inp)"
    by (simp only: calculateColumn_isValid stirrups_irrelevant_moments stirrups_irrelevant_As_final)
qed

text \<open>
  The hypothesis of the amended C9 holds for \<open>thinStirrupColumn\<close>, which violates both
  rules, gets both warnings and has the flag of \<open>exampleColumn\<close>.
\<close>

theorem stirrup_rules_warn_only_witness:
  "widthX thinStirrupColumn \<noteq> 0 \<and> widthY thinStirrupColumn \<noteq> 0
   \<and> maxLambda thinStirrupColumn \<le> 140
   \<and> col_stirrupDiameter thinStirrupColumn < max 5 (col_longitudinalBarDiameter thinStirrupColumn / 4)
   \<and> StirrupDiameterTooSmall 4 10 5 \<in> set (messages (calculateColumn thinStirrupColumn))
   \<and> StirrupSpacingTooLarge 30 12 \<in> set (messages (calculateColumn thinStirrupColumn))
   \<and> isValid (calculateColumn thinStirrupColumn) = isValid (calculateColumn exampleColumn)"
proof -
  have l: "maxLambda thinStirrupColumn \<le> 140" by (simp add: slenderness_defs column_examples)
  have f: "col_stirrupDiameter thinStirrupColumn = 4" "col_longitudinalBarDiameter thinStirrupColumn = 10"
    "col_stirrupSpacing thinStirrupColumn = 30"
    "toFixed 1 (minStirrupDiaRule thinStirrupColumn) = 5"
    "toFixed 1 (maxSpacingRule thinStirrupColumn) = 12"
    "widthX thinStirrupColumn = 20" "widthY thinStirrupColumn = 20"
    by (simp_all add: column_examples minStirrupDiaRule_def maxSpacingRule_def toFixed_def)
  have e: "thinStirrupColumn\<lparr>col_stirrupDiameter := 5, col_stirrupSpacing := 15\<rparr> = exampleColumn"
    by (simp add: column_examples)
  note t = stirrup_rules_warn_only[where inp = thinStirrupColumn and sd = 5 and ss = 15, unfolded e f]
  have d: "(4::real) < max 5 (10 / 4)" "(30::real) > min 20 (min (min 20 20) (12 * (10 / 10)))" by simp_all
  have w: "(20::real) \<noteq> 0" by simp
  from t l d w have "StirrupDiameterTooSmall 4 10 5 \<in> set (messages (calculateColumn thinStirrupColumn))"
    "StirrupSpacingTooLarge 30 12 \<in> set (messages (calculateColumn thinStirrupColumn))"
    by blast+
  with l d(1) t[THEN conjunct2] show ?thesis by (simp add: f)
qed


subsection \<open>C10: the provided steel area\<close>

text \<open>
  Claim C10. For a face designed by \<open>calculateReinforcement\<close> the provided area is the number
  of bars times the area of one bar of the chosen diameter, the number of bars is at least
  2, and the provided area is at least the required area \<open>as_req\<close>, in every branch (section
  insufficient or not, constructive reinforcement, minimum reinforcement). The bar diameter
  is assumed not to be zero.
\<close>

theorem provided_area_covers_required:
  assumes nz: "barDia \<noteq> 0"
  shows "as_provided (fst (calculateReinforcement inp MomentD barDia face))
           = real_of_int (count (fst (calculateReinforcement inp MomentD barDia face)))
               * (pi * (barDia / 20)\<^sup>2)
       \<and> 2 \<le> count (fst (calculateReinforcement inp MomentD barDia face))
       \<and> as_req (fst (calculateReinforcement inp MomentD barDia face))
           \<le> as_provided (fst (calculateReinforcement inp MomentD barDia face))"
proof -
  have bpos: "0 < pi * (barDia / 20)\<^sup>2" using nz by simp
  have ceil: "x \<le> real_of_int \<lceil>x / (pi * (barDia / 20)\<^sup>2)\<rceil> * (pi * (barDia / 20)\<^sup>2)" for x
  proof -
    have "x / (pi * (barDia / 20)\<^sup>2) \<le> real_of_int \<lceil>x / (pi * (barDia / 20)\<^sup>2)\<rceil>"
      by (rule le_of_int_ceiling)
    then show ?thesis by (simp only: pos_divide_le_eq[OF bpos])
  qed
  have few: "x \<le> 2 * (pi * (barDia / 20)\<^sup>2)" if "x / (pi * (barDia / 20)\<^sup>2) \<le> 1" for x
  proof -
    from that have "x \<le> 1 * (pi * (barDia / 20)\<^sup>2)" by (simp only: pos_divide_le_eq[OF bpos])
    with bpos show ?thesis by linarith
  qed
  show ?thesis
  proof (intro conjI)
    show "as_provided (fst (calculateReinforcement inp MomentD barDia face))
           = real_of_int (count (fst (calculateReinforcement inp MomentD barDia face)))
               * (pi * (barDia / 20)\<^sup>2)"
      by (simp add: calculateReinforcement_def Let_def)
    show "2 \<le> count (fst (calculateReinforcement inp MomentD barDia face))"
      by (simp add: calculateReinforcement_def Let_def)
    show "as_req (fst (calculateReinforcement inp MomentD barDia face))
           \<le> as_provided (fst (calculateReinforcement inp MomentD barDia face))"
    proof (cases "MomentD < 0.5")
      case constructive: True
      show ?thesis
      proof (cases "As_min inp > 2 * (pi * (barDia / 20)\<^sup>2)")
        case True
        then have "0 < As_min inp" using bpos by linarith
        with constructive True ceil[of "As_min inp"] few[of "As_min inp"] show ?thesis
          by (auto simp: calculateReinforcement_def Let_def)
      next
        case False
        with constructive bpos show ?thesis
          by (simp add: calculateReinforcement_def Let_def)
      qed
    next
      case False
      with ceil few show ?thesis
        by (auto simp: calculateReinforcement_def Let_def)
    qed
  qed
qed

text \<open>
  The hypothesis of C10 holds for the bottom face of \<open>exampleBeam\<close> with its bars of
  10 mm.
\<close>

theorem provided_area_covers_required_witness:
  "(10::real) \<noteq> 0
   \<and> 2 \<le> count (fst (calculateReinforcement exampleBeam 65.625 10 bottomFace))
   \<and> as_req (fst (calculateReinforcement exampleBeam 65.625 10 bottomFace))
       \<le> as_provided (fst (calculateReinforcement exampleBeam 65.625 10 bottomFace))"
  using provided_area_covers_required[where barDia = 10 and inp = exampleBeam and MomentD = "65.625"
          and face = bottomFace] by simp

end
